theory Spec2Isabelle
  imports Complex_Main
begin

section \<open>JavaScript values and the host page\<close>

text \<open>
  The components are React function components written in TypeScript on top of three.js.
  Pixel sizes of DOM boxes (\<^verbatim>\<open>clientWidth\<close>, \<^verbatim>\<open>innerWidth\<close>) are naturals and
  \<^verbatim>\<open>Date.now()\<close> is an integer number of milliseconds. A React ref
  \<^verbatim>\<open>useRef<T | null>(null)\<close> is an option.

  A JavaScript number is an IEEE 754 double and an element of a \<^verbatim>\<open>Float32Array\<close> a single:
  every arithmetic operation rounds its exact result to the nearest double (ties to
  even), and a store into a \<^verbatim>\<open>Float32Array\<close> rounds once more to the nearest single.
  \<open>fround p emin\<close> is that rounding for \<open>p\<close> significant bits and least exponent \<open>emin\<close>;
  overflow to infinity is not modelled (no value here comes near the largest finite one).
  The rounding is written out in the drag handler and in the particle arrays of the city
  demo, where what is stored matters to a property; the other arithmetic is exact.
\<close>

definition rne :: "real \<Rightarrow> int" where
  \<comment> \<open>The nearest integer, a tie going to the even one.\<close>
  "rne y =
     (let f = \<lfloor>y\<rfloor>; d = y - of_int f
      in if d < 1 / 2 then f else if 1 / 2 < d then f + 1 else if even f then f else f + 1)"

definition fround :: "nat \<Rightarrow> int \<Rightarrow> real \<Rightarrow> real" where
  "fround p emin x =
     (if x = 0 then 0
      else
        (let e = max (\<lfloor>log 2 \<bar>x\<bar>\<rfloor> - (int p - 1)) emin
         in of_int (rne (x / 2 powi e)) * 2 powi e))"

definition f64 :: "real \<Rightarrow> real" where
  "f64 = fround 53 (- 1074)"

definition f32 :: "real \<Rightarrow> real" where
  "f32 = fround 24 (- 149)"

definition js_or :: "nat \<Rightarrow> nat \<Rightarrow> nat" where
  \<comment> \<open>\<^verbatim>\<open>a || b\<close> on numbers: \<^verbatim>\<open>0\<close> is falsy.\<close>
  "js_or a b = (if a = 0 then b else a)"

definition js_div :: "nat \<Rightarrow> nat \<Rightarrow> real option" where
  \<comment> \<open>\<^verbatim>\<open>a / b\<close>; \<open>None\<close> stands for the non-finite results (\<^verbatim>\<open>Infinity\<close>, \<^verbatim>\<open>NaN\<close>) of a zero divisor.\<close>
  "js_div a b = (if b = 0 then None else Some (real a / real b))"

datatype node = CanvasNode nat | OtherNode nat

datatype target = WindowT | DocumentT | CanvasT nat

datatype event_type = resize | mousedown | mousemove | mouseup

text \<open>The release calls a component makes, in the order it makes them.\<close>

datatype action =
    RemoveEventListener target event_type
  | CancelAnimationFrame nat
  | ControlsDispose
  | RemoveChild node
  | RendererDispose
  | Dispose string

text \<open>
  The part of the state every scene component has: the mount point \<^verbatim>\<open>mountRef.current\<close>
  with its measured box and child nodes, the browser's animation-frame callback list,
  listener table and pending \<^verbatim>\<open>setTimeout\<close> callbacks, the component's refs, and the
  camera and renderer that the effect's closure holds. \<open>rendererSize\<close> and \<open>pixelRatio\<close>
  are what \<^verbatim>\<open>renderer.setSize\<close> and \<^verbatim>\<open>renderer.setPixelRatio\<close> were last called with,
  \<open>draws\<close> counts the calls of \<^verbatim>\<open>renderer.render\<close>, and \<open>trace\<close> records the release
  calls (listener removal, frame cancellation, node removal, \<^verbatim>\<open>dispose\<close>) in the order
  they are made.
\<close>

record host =
  mountRef :: bool
  clientWidth :: nat
  clientHeight :: nat
  innerWidth :: nat
  innerHeight :: nat
  devicePixelRatio :: real
  children :: "node list"
  nextNode :: nat
  rafCounter :: nat
  rafPending :: "nat list"
  listeners :: "(target \<times> event_type) list"
  rendererRef :: "nat option"
  controlsRef :: bool
  animationIdRef :: "nat option"
  canvas :: nat
  aspect :: "real option"
  rendererSize :: "nat \<times> nat"
  pixelRatio :: real
  draws :: nat
  timeouts :: nat
  trace :: "action list"

definition requestAnimationFrame :: "'a host_scheme \<Rightarrow> nat \<times> 'a host_scheme" where
  \<comment> \<open>The browser hands out handles 1, 2, 3, ... and appends the callback to its list.\<close>
  "requestAnimationFrame w =
     (let h = rafCounter w + 1
      in (h, w\<lparr>rafCounter := h, rafPending := rafPending w @ [h]\<rparr>))"

definition cancelAnimationFrame :: "nat \<Rightarrow> 'a host_scheme \<Rightarrow> 'a host_scheme" where
  "cancelAnimationFrame h w =
     w\<lparr>rafPending := removeAll h (rafPending w),
       trace := trace w @ [CancelAnimationFrame h]\<rparr>"

definition addEventListener :: "target \<Rightarrow> event_type \<Rightarrow> 'a host_scheme \<Rightarrow> 'a host_scheme" where
  "addEventListener t e w = w\<lparr>listeners := listeners w @ [(t, e)]\<rparr>"

definition removeEventListener :: "target \<Rightarrow> event_type \<Rightarrow> 'a host_scheme \<Rightarrow> 'a host_scheme" where
  "removeEventListener t e w =
     w\<lparr>listeners := remove1 (t, e) (listeners w),
       trace := trace w @ [RemoveEventListener t e]\<rparr>"

definition removeChild :: "node \<Rightarrow> 'a host_scheme \<Rightarrow> 'a host_scheme" where
  "removeChild c w =
     w\<lparr>children := remove1 c (children w), trace := trace w @ [RemoveChild c]\<rparr>"

definition appendChild :: "node \<Rightarrow> 'a host_scheme \<Rightarrow> 'a host_scheme" where
  "appendChild c w = w\<lparr>children := children w @ [c]\<rparr>"

primrec removeEach :: "node list \<Rightarrow> 'a host_scheme \<Rightarrow> 'a host_scheme" where
  "removeEach [] w = w"
| "removeEach (c # cs) w = removeEach cs (removeChild c w)"

definition clearMount :: "'a host_scheme \<Rightarrow> 'a host_scheme" where
  \<comment> \<open>\<^verbatim>\<open>while (mountRef.current.firstChild) mountRef.current.removeChild(firstChild)\<close>\<close>
  "clearMount w = removeEach (children w) w"

definition isCanvas :: "node \<Rightarrow> bool" where
  "isCanvas n = (case n of CanvasNode _ \<Rightarrow> True | OtherNode _ \<Rightarrow> False)"

definition detachCanvases :: "'a host_scheme \<Rightarrow> 'a host_scheme" where
  \<comment> \<open>The \<^verbatim>\<open>if (mountRef.current) { ... }\<close> block of every cleanup: the renderer's own canvas
      first, then every remaining canvas child.\<close>
  "detachCanvases w =
     (if mountRef w then
        (let w1 = (if CanvasNode (canvas w) \<in> set (children w)
                   then removeChild (CanvasNode (canvas w)) w else w)
         in removeEach (filter isCanvas (children w1)) w1)
      else w)"

definition released :: "action \<Rightarrow> 'a host_scheme \<Rightarrow> 'a host_scheme" where
  \<comment> \<open>A \<^verbatim>\<open>dispose()\<close> call on a three.js object.\<close>
  "released a w = w\<lparr>trace := trace w @ [a]\<rparr>"

definition createRenderer :: "nat \<Rightarrow> nat \<Rightarrow> 'a host_scheme \<Rightarrow> 'a host_scheme" where
  \<comment> \<open>\<^verbatim>\<open>new THREE.WebGLRenderer\<close> makes a fresh canvas; then \<^verbatim>\<open>setSize\<close>, \<^verbatim>\<open>setPixelRatio\<close>,
      \<^verbatim>\<open>rendererRef.current = renderer\<close> and \<^verbatim>\<open>appendChild(renderer.domElement)\<close>.\<close>
  "createRenderer width height w =
     (let c = nextNode w;
          w1 = w\<lparr>nextNode := c + 1, canvas := c\<rparr>;
          w2 = w1\<lparr>rendererSize := (width, height)\<rparr>;
          w3 = w2\<lparr>pixelRatio := devicePixelRatio w2\<rparr>;
          w4 = w3\<lparr>rendererRef := Some c\<rparr>
      in appendChild (CanvasNode c) w4)"

section \<open>RotatingCube\<close>

record config =
  cubeColor :: string
  cubeSize :: real
  autoRotate :: bool
  rotationSpeed :: real
  cubeTexture :: string

datatype material =
    MeshPhongMaterial string bool
  | MeshStandardMaterial string
  | MeshPhysicalMaterial string

definition cubeMaterial :: "config \<Rightarrow> material" where
  "cubeMaterial cfg =
     (if cubeTexture cfg = ''wireframe'' then MeshPhongMaterial (cubeColor cfg) True
      else if cubeTexture cfg = ''metallic'' then MeshStandardMaterial (cubeColor cfg)
      else if cubeTexture cfg = ''glass'' then MeshPhysicalMaterial (cubeColor cfg)
      else MeshPhongMaterial (cubeColor cfg) False)"

record cube =
  boxSize :: real
  cubeMat :: material
  rotation_x :: real
  rotation_y :: real
  position_y :: real

record cube_world = host +
  cubeRef :: "cube option"
  isDraggingRef :: bool
  previousMousePositionRef :: "real \<times> real"
  captured :: config

text \<open>
  \<^verbatim>\<open>animate\<close>: one tick of the frame loop. \<open>now\<close> is what \<^verbatim>\<open>Date.now()\<close> returns in the
  tick; \<open>captured\<close> is the configuration the effect's closure was created with. The
  tick first requests the next frame, then moves the cube, then draws;
  \<^verbatim>\<open>controlsRef.current.update()\<close> acts on disabled controls and changes nothing here.
\<close>

definition autoRotation :: "config \<Rightarrow> bool \<Rightarrow> cube \<Rightarrow> cube" where
  "autoRotation cfg dragging c =
     (if autoRotate cfg \<and> \<not> dragging
      then c\<lparr>rotation_x := rotation_x c + 0.01 * rotationSpeed cfg,
             rotation_y := rotation_y c + 0.01 * rotationSpeed cfg\<rparr>
      else c)"

definition floating :: "config \<Rightarrow> int \<Rightarrow> cube \<Rightarrow> cube" where
  "floating cfg now c =
     (if autoRotate cfg
      then c\<lparr>position_y := sin (real_of_int now * 0.001) * 0.2\<rparr>
      else c\<lparr>position_y := 0\<rparr>)"

definition animate :: "int \<Rightarrow> cube_world \<Rightarrow> cube_world" where
  "animate now w =
     (let (h, w1) = requestAnimationFrame w;
          w2 = w1\<lparr>animationIdRef := Some h\<rparr>;
          w3 = (case cubeRef w2 of
                  None \<Rightarrow> w2
                | Some c \<Rightarrow>
                    w2\<lparr>cubeRef :=
                         Some (floating (captured w2) now
                                 (autoRotation (captured w2) (isDraggingRef w2) c))\<rparr>)
      in w3\<lparr>draws := draws w3 + 1\<rparr>)"

definition handleMouseDown :: "real \<Rightarrow> real \<Rightarrow> cube_world \<Rightarrow> cube_world" where
  "handleMouseDown x y w = w\<lparr>isDraggingRef := True, previousMousePositionRef := (x, y)\<rparr>"

definition sensitivity :: real where
  \<comment> \<open>The handler's local \<^verbatim>\<open>const rotationSpeed = 0.01\<close>: the double nearest to 1/100.\<close>
  "sensitivity = f64 (1 / 100)"

definition handleMouseMove :: "real \<Rightarrow> real \<Rightarrow> cube_world \<Rightarrow> cube_world" where
  "handleMouseMove x y w =
     (if \<not> isDraggingRef w then w
      else case cubeRef w of
          None \<Rightarrow> w
        | Some c \<Rightarrow>
            (let deltaMove_x = f64 (x - fst (previousMousePositionRef w));
                 deltaMove_y = f64 (y - snd (previousMousePositionRef w));
                 c1 = c\<lparr>rotation_y := f64 (rotation_y c + f64 (deltaMove_x * sensitivity))\<rparr>;
                 c2 = c1\<lparr>rotation_x := f64 (rotation_x c1 + f64 (deltaMove_y * sensitivity))\<rparr>
             in w\<lparr>cubeRef := Some c2, previousMousePositionRef := (x, y)\<rparr>))"

definition handleMouseUp :: "cube_world \<Rightarrow> cube_world" where
  "handleMouseUp w = w\<lparr>isDraggingRef := False\<rparr>"

definition handleResize :: "cube_world \<Rightarrow> cube_world" where
  "handleResize w =
     (if \<not> mountRef w then w
      else
        (let width = js_or (clientWidth w) (innerWidth w);
             height = js_or (clientHeight w) (innerHeight w)
         in w\<lparr>aspect := js_div width height, rendererSize := (width, height)\<rparr>))"

text \<open>
  The body of the first \<^verbatim>\<open>useEffect\<close>. Lights and the ground plane have no state that
  any later code reads; the cube is a fresh mesh with zero rotation at the origin. Both
  early returns hand React no cleanup function; past them the effect returns \<open>cleanup\<close>.
  The last line is \<^verbatim>\<open>setTimeout(() => handleResize(), 10)\<close>.
\<close>

definition newCube :: "config \<Rightarrow> cube" where
  "newCube cfg =
     \<lparr>boxSize = cubeSize cfg, cubeMat = cubeMaterial cfg,
      rotation_x = 0, rotation_y = 0, position_y = 0\<rparr>"

definition mount :: "config \<Rightarrow> int \<Rightarrow> cube_world \<Rightarrow> cube_world" where
  "mount cfg now w =
     (if \<not> mountRef w then w
      else
        (let w1 = clearMount w
         in if rendererRef w1 \<noteq> None then w1
            else
              (let width = js_or (clientWidth w1) (innerWidth w1);
                   height = js_or (clientHeight w1) (innerHeight w1);
                   w2 = w1\<lparr>aspect := js_div width height\<rparr>;
                   w3 = createRenderer width height w2;
                   w4 = w3\<lparr>controlsRef := True\<rparr>;
                   w5 = w4\<lparr>cubeRef := Some (newCube cfg), captured := cfg\<rparr>;
                   w6 = animate now w5;
                   w7 = addEventListener (CanvasT (canvas w6)) mousedown w6;
                   w8 = addEventListener DocumentT mousemove w7;
                   w9 = addEventListener DocumentT mouseup w8;
                   w10 = addEventListener WindowT resize w9
               in w10\<lparr>timeouts := timeouts w10 + 1\<rparr>)))"

text \<open>The function the effect returns.\<close>

definition cleanup :: "cube_world \<Rightarrow> cube_world" where
  "cleanup w =
     (let w1 = removeEventListener WindowT resize w;
          w2 = (case animationIdRef w1 of
                  None \<Rightarrow> w1
                | Some h \<Rightarrow>
                    if h = 0 then w1
                    else (cancelAnimationFrame h w1)\<lparr>animationIdRef := None\<rparr>);
          w3 = (if controlsRef w2 then released ControlsDispose w2 else w2);
          w4 = removeEventListener (CanvasT (canvas w3)) mousedown w3;
          w5 = removeEventListener DocumentT mousemove w4;
          w6 = removeEventListener DocumentT mouseup w5;
          w7 = detachCanvases w6;
          w8 = released RendererDispose w7;
          w9 = w8\<lparr>rendererRef := None\<rparr>;
          w10 = released (Dispose ''geometry'') w9;
          w11 = released (Dispose ''material'') w10;
          w12 = released (Dispose ''planeMaterial'') w11
      in released (Dispose ''planeGeometry'') w12)"

text \<open>
  When React runs the cleanup. On unmount it first clears \<^verbatim>\<open>mountRef.current\<close> and then
  runs the cleanup. When a dependency changed, or when it mounts the component a second
  time, it runs the cleanup with the mount point still referenced and then runs the
  effect again.
\<close>

definition unmount :: "cube_world \<Rightarrow> cube_world" where
  "unmount w = cleanup (w\<lparr>mountRef := False\<rparr>)"

definition rerun :: "config \<Rightarrow> int \<Rightarrow> cube_world \<Rightarrow> cube_world" where
  "rerun cfg now w = mount cfg now (cleanup w)"

text \<open>
  What the browser does with the component: a display refresh runs the callbacks that
  were in the animation-frame list when the refresh began; an input event runs the
  handler registered for it, if one still is.
\<close>

datatype event =
    Frame int
  | MouseDownEv real real
  | MouseMoveEv real real
  | MouseUpEv
  | ResizeEv nat nat
  | TimeoutEv

definition runFrame :: "int \<Rightarrow> cube_world \<Rightarrow> cube_world" where
  "runFrame now w = fold (\<lambda>_. animate now) (rafPending w) (w\<lparr>rafPending := []\<rparr>)"

definition step :: "event \<Rightarrow> cube_world \<Rightarrow> cube_world" where
  "step ev w =
     (case ev of
        Frame now \<Rightarrow> runFrame now w
      | MouseDownEv x y \<Rightarrow>
          if (CanvasT (canvas w), mousedown) \<in> set (listeners w) then handleMouseDown x y w else w
      | MouseMoveEv x y \<Rightarrow>
          if (DocumentT, mousemove) \<in> set (listeners w) then handleMouseMove x y w else w
      | MouseUpEv \<Rightarrow>
          if (DocumentT, mouseup) \<in> set (listeners w) then handleMouseUp w else w
      | ResizeEv cw ch \<Rightarrow>
          (let w1 = w\<lparr>clientWidth := cw, clientHeight := ch\<rparr>
           in if (WindowT, resize) \<in> set (listeners w1) then handleResize w1 else w1)
      | TimeoutEv \<Rightarrow>
          if 0 < timeouts w then handleResize (w\<lparr>timeouts := timeouts w - 1\<rparr>) else w)"

definition run :: "event list \<Rightarrow> cube_world \<Rightarrow> cube_world" where
  "run evs w = fold step evs w"

text \<open>The life of a mounted component: events, and re-runs of the effect.\<close>

datatype lifecycle = Happens event | Rerun config int

fun life :: "lifecycle \<Rightarrow> cube_world \<Rightarrow> cube_world" where
  "life (Happens ev) w = step ev w"
| "life (Rerun cfg now) w = rerun cfg now w"

definition live :: "lifecycle list \<Rightarrow> cube_world \<Rightarrow> cube_world" where
  "live acts w = fold life acts w"

text \<open>The page before the component's first effect: an empty mount point of the given box.\<close>

definition defaultConfig :: config where
  "defaultConfig =
     \<lparr>cubeColor = ''#00ff88'', cubeSize = 1.5, autoRotate = True,
      rotationSpeed = 1, cubeTexture = ''solid''\<rparr>"

definition page :: "nat \<Rightarrow> nat \<Rightarrow> nat \<Rightarrow> nat \<Rightarrow> real \<Rightarrow> cube_world" where
  "page cw ch iw ih dpr =
     \<lparr>mountRef = True, clientWidth = cw, clientHeight = ch, innerWidth = iw, innerHeight = ih,
      devicePixelRatio = dpr, children = [], nextNode = 0, rafCounter = 0, rafPending = [],
      listeners = [], rendererRef = None, controlsRef = False, animationIdRef = None,
      canvas = 0, aspect = None, rendererSize = (0, 0), pixelRatio = 1, draws = 0,
      timeouts = 0, trace = [],
      cubeRef = None, isDraggingRef = False, previousMousePositionRef = (0, 0),
      captured = defaultConfig\<rparr>"

text \<open>
  A drag gesture: mouse down at \<open>(x0, y0)\<close>, then pointer moves to the given positions
  with frame ticks falling anywhere between them, then mouse up.
\<close>

datatype drag_event = PointerMove real real | Tick int

fun during_drag :: "drag_event \<Rightarrow> cube_world \<Rightarrow> cube_world" where
  "during_drag (PointerMove x y) w = handleMouseMove x y w"
| "during_drag (Tick now) w = animate now w"

definition gesture :: "real \<Rightarrow> real \<Rightarrow> drag_event list \<Rightarrow> cube_world \<Rightarrow> cube_world" where
  "gesture x0 y0 evs w = handleMouseUp (fold during_drag evs (handleMouseDown x0 y0 w))"

section \<open>GalacticSolarSystem\<close>

text \<open>
  \<^verbatim>\<open>Math.random()\<close> is a stream \<open>rnd\<close> of numbers with a read position: the \<open>k\<close>-th call
  returns \<open>rnd k\<close>. A \<^verbatim>\<open>Float32Array(n)\<close> is a list of \<open>n\<close> zeros, written by index.
  The two colours of the gradient are \<^verbatim>\<open>THREE.Color\<close> objects; their components are taken
  as given.
\<close>

type_synonym rgb = "real \<times> real \<times> real"

definition lerp :: "rgb \<Rightarrow> rgb \<Rightarrow> real \<Rightarrow> rgb" where
  \<comment> \<open>\<^verbatim>\<open>Color.lerp\<close>: \<^verbatim>\<open>this.r += (color.r - this.r) * alpha\<close>, and so for g and b.\<close>
  "lerp c d alpha =
     (case c of (cr, cg, cb) \<Rightarrow> case d of (dr, dg, db) \<Rightarrow>
        (cr + (dr - cr) * alpha, cg + (dg - cg) * alpha, cb + (db - cb) * alpha))"

definition particleCount :: nat where "particleCount = 20000"
definition galaxyRadius :: real where "galaxyRadius = 200"
definition galaxyArms :: nat where "galaxyArms = 4"
definition randomness :: real where "randomness = 0.3"
definition randomnessPower :: nat where "randomnessPower = 3"

record buffers =
  positions :: "real list"
  colors :: "real list"
  scales :: "real list"
  randoms :: "real list"

definition newBuffers :: "nat \<Rightarrow> buffers" where
  "newBuffers n =
     \<lparr>positions = replicate (n * 3) 0, colors = replicate (n * 3) 0,
      scales = replicate n 0, randoms = replicate (n * 3) 0\<rparr>"

definition galaxyPoint :: "(nat \<Rightarrow> real) \<Rightarrow> rgb \<Rightarrow> rgb \<Rightarrow> nat \<Rightarrow> nat \<Rightarrow> buffers \<Rightarrow> buffers" where
  \<comment> \<open>The body of the build loop for point \<open>i\<close>, reading \<open>rnd k\<close> to \<open>rnd (k + 10)\<close>.\<close>
  "galaxyPoint rnd insideColor outsideColor i k bufs =
     (let i3 = i * 3;
          radius = rnd k * galaxyRadius;
          spinAngle = radius * 0.2;
          branchAngle = (real (i mod galaxyArms) / real galaxyArms) * pi * 2;
          randomX = rnd (k + 1) ^ randomnessPower * (if rnd (k + 2) < 0.5 then 1 else - 1)
                      * randomness * radius;
          randomY = rnd (k + 3) ^ randomnessPower * (if rnd (k + 4) < 0.5 then 1 else - 1)
                      * randomness * radius;
          randomZ = rnd (k + 5) ^ randomnessPower * (if rnd (k + 6) < 0.5 then 1 else - 1)
                      * randomness * radius;
          ps = (positions bufs)
                 [i3 := cos (branchAngle + spinAngle) * radius + randomX,
                  i3 + 1 := randomY * 0.1,
                  i3 + 2 := sin (branchAngle + spinAngle) * radius + randomZ];
          mixedColor = lerp insideColor outsideColor (radius / galaxyRadius);
          cs = (colors bufs)
                 [i3 := fst mixedColor,
                  i3 + 1 := fst (snd mixedColor),
                  i3 + 2 := snd (snd mixedColor)];
          ss = (scales bufs)[i := rnd (k + 7) * 0.5 + 0.5];
          rs = (randoms bufs)
                 [i3 := (rnd (k + 8) - 0.5) * 2,
                  i3 + 1 := (rnd (k + 9) - 0.5) * 2,
                  i3 + 2 := (rnd (k + 10) - 0.5) * 2]
      in \<lparr>positions = ps, colors = cs, scales = ss, randoms = rs\<rparr>)"

function galaxyLoop ::
  "(nat \<Rightarrow> real) \<Rightarrow> rgb \<Rightarrow> rgb \<Rightarrow> nat \<Rightarrow> nat \<Rightarrow> nat \<Rightarrow> buffers \<Rightarrow> buffers \<times> nat" where
  "galaxyLoop rnd insideColor outsideColor n i k bufs =
     (if i < n
      then galaxyLoop rnd insideColor outsideColor n (i + 1) (k + 11)
             (galaxyPoint rnd insideColor outsideColor i k bufs)
      else (bufs, k))"
  by pat_completeness auto
termination
  by (relation "measure (\<lambda>(rnd, insideColor, outsideColor, n, i, k, bufs). n - i)") auto

record moon =
  moon_angle :: real
  moon_orbitRadius :: real
  moon_orbitSpeed :: real
  moon_x :: real
  moon_z :: real

record planet =
  angle :: real
  orbitRadius :: real
  orbitSpeed :: real
  spinSpeed :: real
  planet_x :: real
  planet_z :: real
  planet_rotation_y :: real
  moons :: "moon list option"

record planetDatum =
  planetName :: string
  planetSize :: real
  dataOrbitRadius :: real
  dataOrbitSpeed :: real
  dataRotationSpeed :: real
  hasMoon :: bool
  hasRings :: bool

definition planetData :: "planetDatum list" where
  "planetData =
     [\<lparr>planetName = ''Mercury'', planetSize = 0.7, dataOrbitRadius = 12, dataOrbitSpeed = 0.025,
       dataRotationSpeed = 0.015, hasMoon = False, hasRings = False\<rparr>,
      \<lparr>planetName = ''Venus'', planetSize = 1.0, dataOrbitRadius = 18, dataOrbitSpeed = 0.02,
       dataRotationSpeed = 0.01, hasMoon = False, hasRings = False\<rparr>,
      \<lparr>planetName = ''Earth'', planetSize = 1.2, dataOrbitRadius = 25, dataOrbitSpeed = 0.015,
       dataRotationSpeed = 0.012, hasMoon = True, hasRings = False\<rparr>,
      \<lparr>planetName = ''Mars'', planetSize = 0.9, dataOrbitRadius = 32, dataOrbitSpeed = 0.012,
       dataRotationSpeed = 0.015, hasMoon = False, hasRings = False\<rparr>,
      \<lparr>planetName = ''Jupiter'', planetSize = 3.5, dataOrbitRadius = 50, dataOrbitSpeed = 0.008,
       dataRotationSpeed = 0.025, hasMoon = True, hasRings = False\<rparr>,
      \<lparr>planetName = ''Saturn'', planetSize = 3.0, dataOrbitRadius = 65, dataOrbitSpeed = 0.006,
       dataRotationSpeed = 0.022, hasMoon = False, hasRings = True\<rparr>]"

definition makeMoon :: "planetDatum \<Rightarrow> nat \<Rightarrow> nat \<Rightarrow> moon" where
  "makeMoon d moonCount i =
     (let moonOrbitRadius = planetSize d + 2.0 + real i * 1.2
      in \<lparr>moon_angle = (real i * pi * 2) / real moonCount,
          moon_orbitRadius = moonOrbitRadius,
          moon_orbitSpeed = 0.08 + real i * 0.03,
          moon_x = moonOrbitRadius, moon_z = 0\<rparr>)"

definition makePlanet :: "planetDatum \<Rightarrow> nat \<Rightarrow> planet" where
  "makePlanet d index =
     \<lparr>angle = (real index * pi * 2) / real (length planetData),
      orbitRadius = dataOrbitRadius d, orbitSpeed = dataOrbitSpeed d,
      spinSpeed = dataRotationSpeed d,
      planet_x = dataOrbitRadius d, planet_z = 0, planet_rotation_y = 0,
      moons =
        (if hasMoon d
         then (let moonCount = (if planetName d = ''Jupiter'' then 4 else 1)
               in Some (map (makeMoon d moonCount) [0..<moonCount]))
         else None)\<rparr>"

definition makePlanets :: "planet list" where
  "makePlanets = map (\<lambda>(d, index). makePlanet d index) (zip planetData [0..<length planetData])"

record galaxy_world = host +
  bufs :: buffers
  uTime :: real
  uSize :: real
  particleSystemRef :: bool
  particles_rotation_y :: real
  timeRef :: real
  sun_rotation_y :: real
  planets :: "planet list"

definition moveMoon :: "moon \<Rightarrow> moon" where
  "moveMoon m =
     (let a = moon_angle m + moon_orbitSpeed m
      in m\<lparr>moon_angle := a, moon_x := cos a * moon_orbitRadius m,
            moon_z := sin a * moon_orbitRadius m\<rparr>)"

definition movePlanet :: "planet \<Rightarrow> planet" where
  "movePlanet p =
     (let a = angle p + orbitSpeed p
      in p\<lparr>angle := a, planet_x := cos a * orbitRadius p, planet_z := sin a * orbitRadius p,
            planet_rotation_y := planet_rotation_y p + spinSpeed p,
            moons := map_option (map moveMoon) (moons p)\<rparr>)"

definition galaxy_animate :: "galaxy_world \<Rightarrow> galaxy_world" where
  "galaxy_animate w =
     (let (h, w1) = requestAnimationFrame w;
          w2 = w1\<lparr>animationIdRef := Some h\<rparr>;
          w3 = w2\<lparr>timeRef := timeRef w2 + 0.01\<rparr>;
          w4 = (if particleSystemRef w3
                then w3\<lparr>particles_rotation_y := timeRef w3 * 0.02\<rparr> else w3);
          w5 = w4\<lparr>uTime := timeRef w4\<rparr>;
          w6 = w5\<lparr>sun_rotation_y := sun_rotation_y w5 + 0.005\<rparr>;
          w7 = w6\<lparr>planets := map movePlanet (planets w6)\<rparr>
      in w7\<lparr>draws := draws w7 + 1\<rparr>)"

definition galaxy_handleResize :: "galaxy_world \<Rightarrow> galaxy_world" where
  "galaxy_handleResize w =
     (if \<not> mountRef w then w
      else
        (let width = js_or (clientWidth w) (innerWidth w);
             height = js_or (clientHeight w) (innerHeight w);
             w1 = w\<lparr>aspect := js_div width height, rendererSize := (width, height)\<rparr>
         in w1\<lparr>uSize := 25 * pixelRatio w1\<rparr>))"

definition galaxy_mount :: "(nat \<Rightarrow> real) \<Rightarrow> rgb \<Rightarrow> rgb \<Rightarrow> galaxy_world \<Rightarrow> galaxy_world" where
  "galaxy_mount rnd insideColor outsideColor w =
     (if \<not> mountRef w then w
      else
        (let w1 = clearMount w
         in if rendererRef w1 \<noteq> None then w1
            else
              (let width = js_or (clientWidth w1) (innerWidth w1);
                   height = js_or (clientHeight w1) (innerHeight w1);
                   w2 = w1\<lparr>aspect := js_div width height\<rparr>;
                   w3 = createRenderer width height w2;
                   w4 = w3\<lparr>controlsRef := True\<rparr>;
                   w5 = w4\<lparr>bufs := fst (galaxyLoop rnd insideColor outsideColor particleCount 0 0
                                           (newBuffers particleCount)),
                          uTime := 0, uSize := 25 * pixelRatio w4,
                          particleSystemRef := True, particles_rotation_y := 0\<rparr>;
                   w6 = w5\<lparr>sun_rotation_y := 0, planets := makePlanets\<rparr>;
                   w7 = galaxy_animate w6;
                   w8 = addEventListener WindowT resize w7
               in w8\<lparr>timeouts := timeouts w8 + 1\<rparr>)))"

definition disposeMoon :: "moon \<Rightarrow> 'a host_scheme \<Rightarrow> 'a host_scheme" where
  "disposeMoon m w =
     released (Dispose ''moon.mesh.material'') (released (Dispose ''moon.mesh.geometry'') w)"

definition disposePlanet :: "planet \<Rightarrow> 'a host_scheme \<Rightarrow> 'a host_scheme" where
  "disposePlanet p w =
     (let w1 = released (Dispose ''planet.mesh.geometry'') w;
          w2 = released (Dispose ''planet.mesh.material'') w1
      in case moons p of None \<Rightarrow> w2 | Some ms \<Rightarrow> fold disposeMoon ms w2)"

definition galaxy_cleanup :: "galaxy_world \<Rightarrow> galaxy_world" where
  "galaxy_cleanup w =
     (let w1 = removeEventListener WindowT resize w;
          w2 = (case animationIdRef w1 of
                  None \<Rightarrow> w1
                | Some h \<Rightarrow> if h = 0 then w1 else cancelAnimationFrame h w1);
          w3 = (if controlsRef w2 then released ControlsDispose w2 else w2);
          w4 = detachCanvases w3;
          w5 = released RendererDispose w4;
          w6 = w5\<lparr>rendererRef := None\<rparr>;
          w7 = released (Dispose ''geometry'') w6;
          w8 = released (Dispose ''particleMaterial'') w7
      in fold disposePlanet (planets w8) w8)"

datatype galaxy_event = GFrame | GResizeEv nat nat | GTimeoutEv

definition galaxy_runFrame :: "galaxy_world \<Rightarrow> galaxy_world" where
  "galaxy_runFrame w = fold (\<lambda>_. galaxy_animate) (rafPending w) (w\<lparr>rafPending := []\<rparr>)"

definition galaxy_step :: "galaxy_event \<Rightarrow> galaxy_world \<Rightarrow> galaxy_world" where
  "galaxy_step ev w =
     (case ev of
        GFrame \<Rightarrow> galaxy_runFrame w
      | GResizeEv cw ch \<Rightarrow>
          (let w1 = w\<lparr>clientWidth := cw, clientHeight := ch\<rparr>
           in if (WindowT, resize) \<in> set (listeners w1) then galaxy_handleResize w1 else w1)
      | GTimeoutEv \<Rightarrow>
          if 0 < timeouts w then galaxy_handleResize (w\<lparr>timeouts := timeouts w - 1\<rparr>) else w)"

definition galaxy_run :: "galaxy_event list \<Rightarrow> galaxy_world \<Rightarrow> galaxy_world" where
  "galaxy_run evs w = fold galaxy_step evs w"

definition galaxy_page :: "nat \<Rightarrow> nat \<Rightarrow> nat \<Rightarrow> nat \<Rightarrow> real \<Rightarrow> galaxy_world" where
  "galaxy_page cw ch iw ih dpr =
     \<lparr>mountRef = True, clientWidth = cw, clientHeight = ch, innerWidth = iw, innerHeight = ih,
      devicePixelRatio = dpr, children = [], nextNode = 0, rafCounter = 0, rafPending = [],
      listeners = [], rendererRef = None, controlsRef = False, animationIdRef = None,
      canvas = 0, aspect = None, rendererSize = (0, 0), pixelRatio = 1, draws = 0,
      timeouts = 0, trace = [],
      bufs = newBuffers 0, uTime = 0, uSize = 0, particleSystemRef = False,
      particles_rotation_y = 0, timeRef = 0, sun_rotation_y = 0, planets = []\<rparr>"

section \<open>ImmersiveScene\<close>

record city_config =
  cameraMode :: string
  timeOfDay :: string
  effectsEnabled :: bool

datatype geometry =
    BoxGeometry real real real
  | PlaneGeometry real real
  | CylinderGeometry real real real

datatype paint = HSL real real real | Hex nat

record mesh =
  mesh_geometry :: geometry
  mesh_color :: paint
  mesh_position :: "real \<times> real \<times> real"
  mesh_rotation_y :: real

type_synonym building = "mesh list"

definition windowMesh :: "real \<Rightarrow> real \<Rightarrow> real \<Rightarrow> real \<Rightarrow> real \<Rightarrow> nat \<Rightarrow> mesh" where
  \<comment> \<open>The body of the \<^verbatim>\<open>for (let i = 0; i < 4; i++)\<close> loop of \<^verbatim>\<open>createBuilding\<close>.\<close>
  "windowMesh width height depth x z i =
     \<lparr>mesh_geometry = PlaneGeometry (width * 0.8) (height * 0.9),
      mesh_color = Hex 0x00ffff,
      mesh_position =
        (if i mod 2 = 0
         then (x, height / 2, z + (if i = 0 then depth / 2 + 0.01 else - depth / 2 - 0.01))
         else (x + (if i = 1 then width / 2 + 0.01 else - width / 2 - 0.01), height / 2, z)),
      mesh_rotation_y = (real i * pi) / 2\<rparr>"

definition createBuilding ::
  "(nat \<Rightarrow> real) \<Rightarrow> nat \<Rightarrow> real \<Rightarrow> real \<Rightarrow> real \<Rightarrow> real \<Rightarrow> real \<Rightarrow> building \<times> nat" where
  "createBuilding rnd k width height depth x z =
     (let main = \<lparr>mesh_geometry = BoxGeometry width height depth,
                   mesh_color = HSL (rnd k * 0.1 + 0.5) 0.7 0.3,
                   mesh_position = (x, height / 2, z), mesh_rotation_y = 0\<rparr>;
          windows = map (windowMesh width height depth x z) [0..<4];
          antenna = \<lparr>mesh_geometry = CylinderGeometry 0.1 0.2 (height * 0.3),
                      mesh_color = Hex 0xff0000,
                      mesh_position = (x, height + height * 0.15, z), mesh_rotation_y = 0\<rparr>
      in (main # windows @ [antenna], k + 1))"

text \<open>
  The city grid: \<^verbatim>\<open>for (let x = -60; x <= 60; x += 20) for (let z = -60; z <= 60; z += 20)\<close>,
  skipping the centre cell. \<open>k\<close> counts the calls of \<^verbatim>\<open>Math.random()\<close> so far and
  \<open>scene\<close> holds the buildings added to the scene so far.
\<close>

function zLoop :: "(nat \<Rightarrow> real) \<Rightarrow> int \<Rightarrow> int \<Rightarrow> nat \<Rightarrow> building list \<Rightarrow> building list \<times> nat" where
  "zLoop rnd x z k scene =
     (if z \<le> 60 then
        (if \<bar>x\<bar> < 10 \<and> \<bar>z\<bar> < 10 then zLoop rnd x (z + 20) k scene
         else
           (let width = 4 + rnd k * 6;
                height = 10 + rnd (k + 1) * 40;
                depth = 4 + rnd (k + 2) * 6;
                b = createBuilding rnd (k + 3) width height depth (real_of_int x) (real_of_int z)
            in zLoop rnd x (z + 20) (snd b) (scene @ [fst b])))
      else (scene, k))"
  by pat_completeness auto
termination
  by (relation "measure (\<lambda>(rnd, x, z, k, scene). nat (61 - z))") auto

function xLoop :: "(nat \<Rightarrow> real) \<Rightarrow> int \<Rightarrow> nat \<Rightarrow> building list \<Rightarrow> building list \<times> nat" where
  "xLoop rnd x k scene =
     (if x \<le> 60 then
        (let r = zLoop rnd x (- 60) k scene in xLoop rnd (x + 20) (snd r) (fst r))
      else (scene, k))"
  by pat_completeness auto
termination
  by (relation "measure (\<lambda>(rnd, x, k, scene). nat (61 - x))") auto

definition cityGrid :: "(nat \<Rightarrow> real) \<Rightarrow> nat \<Rightarrow> building list \<times> nat" where
  "cityGrid rnd k = xLoop rnd (- 60) k []"

record vehicle =
  vehicle_position :: "real \<times> real \<times> real"
  direction :: "real \<times> real \<times> real"
  speed :: real
  vehicle_rotation_y :: real

definition vlength :: "real \<times> real \<times> real \<Rightarrow> real" where
  "vlength v = (case v of (x, y, z) \<Rightarrow> sqrt (x * x + y * y + z * z))"

definition normalize :: "real \<times> real \<times> real \<Rightarrow> real \<times> real \<times> real" where
  \<comment> \<open>\<^verbatim>\<open>Vector3.normalize\<close>: \<^verbatim>\<open>divideScalar(this.length() || 1)\<close>.\<close>
  "normalize v =
     (let l = (if vlength v = 0 then 1 else vlength v)
      in case v of (x, y, z) \<Rightarrow> (x / l, y / l, z / l))"

definition createFlyingVehicle :: "(nat \<Rightarrow> real) \<Rightarrow> nat \<Rightarrow> vehicle \<times> nat" where
  "createFlyingVehicle rnd k =
     (\<lparr>vehicle_position =
         ((rnd k - 0.5) * 100, 20 + rnd (k + 1) * 30, (rnd (k + 2) - 0.5) * 100),
       direction =
         normalize ((rnd (k + 4) - 0.5) * 2, (rnd (k + 5) - 0.5) * 0.5, (rnd (k + 6) - 0.5) * 2),
       speed = 0.1 + rnd (k + 3) * 0.3,
       vehicle_rotation_y = 0\<rparr>, k + 7)"

function vehiclesLoop :: "(nat \<Rightarrow> real) \<Rightarrow> nat \<Rightarrow> nat \<Rightarrow> vehicle list \<Rightarrow> vehicle list \<times> nat" where
  "vehiclesLoop rnd i k vs =
     (if i < 8 then
        (let r = createFlyingVehicle rnd k in vehiclesLoop rnd (i + 1) (snd r) (vs @ [fst r]))
      else (vs, k))"
  by pat_completeness auto
termination
  by (relation "measure (\<lambda>(rnd, i, k, vs). 8 - i)") auto

definition moveVehicle :: "vehicle \<Rightarrow> vehicle" where
  "moveVehicle v =
     (case vehicle_position v of (px, py, pz) \<Rightarrow> case direction v of (dx, dy, dz) \<Rightarrow>
        (let p = (px + dx * speed v, py + dy * speed v, pz + dz * speed v);
             v1 = v\<lparr>vehicle_position := p\<rparr>;
             v2 = v1\<lparr>vehicle_rotation_y := vehicle_rotation_y v1 + 0.02\<rparr>
         in if vlength p > 80 then v2\<lparr>direction := (- dx, - dy, - dz)\<rparr> else v2))"

datatype particle_type = rain | sparks | fog

record particleSystem =
  ptype :: particle_type
  ppositions :: "real list"
  pvelocities :: "real list"
  pcolors :: "real list"

definition countOf :: "particle_type \<Rightarrow> nat" where
  "countOf t = (if t = rain then 1000 else if t = sparks then 500 else 300)"

definition seedPoint :: "(nat \<Rightarrow> real) \<Rightarrow> nat \<Rightarrow> nat \<Rightarrow> particleSystem \<Rightarrow> particleSystem" where
  \<comment> \<open>The body of the seeding loop for point \<open>i\<close>, reading \<open>rnd k\<close> to \<open>rnd (k + 5)\<close>; each
      value is computed in doubles and stored as a single.\<close>
  "seedPoint rnd i k sys =
     (let i3 = i * 3;
          ps = (ppositions sys)
                 [i3 := f32 (f64 (f64 (rnd k - 0.5) * 200)),
                  i3 + 1 := f32 (f64 (rnd (k + 1) * 100)),
                  i3 + 2 := f32 (f64 (f64 (rnd (k + 2) - 0.5) * 200))];
          vs = (if ptype sys = rain then
                  (pvelocities sys)
                    [i3 := f32 (f64 (f64 (rnd (k + 3) - 0.5) * f64 (1 / 10))),
                     i3 + 1 := f32 (f64 (- 2 - f64 (rnd (k + 4) * 3))),
                     i3 + 2 := f32 (f64 (f64 (rnd (k + 5) - 0.5) * f64 (1 / 10)))]
                else if ptype sys = sparks then
                  (pvelocities sys)
                    [i3 := f32 (f64 (f64 (rnd (k + 3) - 0.5) * 2)),
                     i3 + 1 := f32 (f64 (rnd (k + 4) * 2)),
                     i3 + 2 := f32 (f64 (f64 (rnd (k + 5) - 0.5) * 2))]
                else
                  (pvelocities sys)
                    [i3 := f32 (f64 (f64 (rnd (k + 3) - 0.5) * 0.5)),
                     i3 + 1 := f32 (f64 (rnd (k + 4) * f64 (1 / 5))),
                     i3 + 2 := f32 (f64 (f64 (rnd (k + 5) - 0.5) * 0.5))]);
          cs = (if ptype sys = rain then
                  (pcolors sys)
                    [i3 := f32 (f64 (7 / 10)), i3 + 1 := f32 (f64 (8 / 10)), i3 + 2 := 1]
                else if ptype sys = sparks then
                  (pcolors sys)[i3 := 1, i3 + 1 := f32 (f64 (6 / 10)), i3 + 2 := 0]
                else
                  (pcolors sys)
                    [i3 := f32 (f64 (8 / 10)), i3 + 1 := f32 (f64 (8 / 10)),
                     i3 + 2 := f32 (f64 (9 / 10))])
      in sys\<lparr>ppositions := ps, pvelocities := vs, pcolors := cs\<rparr>)"

function seedLoop :: "(nat \<Rightarrow> real) \<Rightarrow> nat \<Rightarrow> nat \<Rightarrow> nat \<Rightarrow> particleSystem \<Rightarrow> particleSystem \<times> nat" where
  "seedLoop rnd n i k sys =
     (if i < n then seedLoop rnd n (i + 1) (k + 6) (seedPoint rnd i k sys) else (sys, k))"
  by pat_completeness auto
termination
  by (relation "measure (\<lambda>(rnd, n, i, k, sys). n - i)") auto

definition newParticleSystem :: "particle_type \<Rightarrow> nat \<Rightarrow> particleSystem" where
  "newParticleSystem t n =
     \<lparr>ptype = t, ppositions = replicate (n * 3) 0, pvelocities = replicate (n * 3) 0,
      pcolors = replicate (n * 3) 0\<rparr>"

definition createParticleSystem :: "(nat \<Rightarrow> real) \<Rightarrow> particle_type \<Rightarrow> nat \<Rightarrow> particleSystem \<times> nat" where
  "createParticleSystem rnd t k = seedLoop rnd (countOf t) 0 k (newParticleSystem t (countOf t))"

text \<open>
  The particle update of \<^verbatim>\<open>animate\<close>:
  \<^verbatim>\<open>for (let i = 0; i < positions.length; i += 3)\<close> adds the velocity to the position
  (a double sum, stored as a single) and respawns the point when the stored position is
  below 0 or outside the square of half-width 100; \<open>pos\<close> and \<open>vel\<close> are the arrays
  \<^verbatim>\<open>positions\<close> and \<^verbatim>\<open>velocities\<close>. Both are built with the same length, a multiple of 3,
  so every index read is in range.
\<close>

function tickLoop :: "(nat \<Rightarrow> real) \<Rightarrow> real list \<Rightarrow> nat \<Rightarrow> nat \<Rightarrow> real list \<Rightarrow> real list \<times> nat" where
  "tickLoop rnd vel i k pos =
     (if i < length pos then
        (let p1 = pos[i := f32 (f64 (pos ! i + vel ! i))];
             p2 = p1[i + 1 := f32 (f64 (p1 ! (i + 1) + vel ! (i + 1)))];
             p3 = p2[i + 2 := f32 (f64 (p2 ! (i + 2) + vel ! (i + 2)))]
         in if p3 ! (i + 1) < 0 \<or> \<bar>p3 ! i\<bar> > 100 \<or> \<bar>p3 ! (i + 2)\<bar> > 100
            then tickLoop rnd vel (i + 3) (k + 3)
                   (p3[i := f32 (f64 (f64 (rnd k - 0.5) * 200)),
                       i + 1 := f32 (f64 (50 + f64 (rnd (k + 1) * 50))),
                       i + 2 := f32 (f64 (f64 (rnd (k + 2) - 0.5) * 200))])
            else tickLoop rnd vel (i + 3) k p3)
      else (pos, k))"
  by pat_completeness auto
termination
  by (relation "measure (\<lambda>(rnd, vel, i, k, pos). length pos - i)") auto

definition tickSystem :: "(nat \<Rightarrow> real) \<Rightarrow> particleSystem \<Rightarrow> nat \<Rightarrow> particleSystem \<times> nat" where
  "tickSystem rnd sys k =
     (let r = tickLoop rnd (pvelocities sys) 0 k (ppositions sys)
      in (sys\<lparr>ppositions := fst r\<rparr>, snd r))"

fun tickSystems :: "(nat \<Rightarrow> real) \<Rightarrow> particleSystem list \<Rightarrow> nat \<Rightarrow> particleSystem list \<times> nat" where
  "tickSystems rnd [] k = ([], k)"
| "tickSystems rnd (sys # rest) k =
     (let r = tickSystem rnd sys k; rs = tickSystems rnd rest (snd r)
      in (fst r # fst rs, snd rs))"

record city_world = host +
  buildings :: "building list"
  flyingObjectsRef :: "vehicle list"
  particleSystemsRef :: "particleSystem list"
  randomCalls :: nat
  cameraPosition :: "real \<times> real \<times> real"
  cityCaptured :: city_config

text \<open>
  \<^verbatim>\<open>animate\<close> of the city: the next frame is requested, the vehicles fly, the particle
  systems tick (drawing random numbers for the respawns), the camera circles in
  cinematic mode, and the scene is drawn. The lighting test
  \<^verbatim>\<open>timeOfDay !== (timeOfDay === "day" ? "day" : "night")\<close> is false for both times of day
  the component can be in, and \<^verbatim>\<open>controls.update()\<close> moves only the orbit camera.
\<close>

definition city_animate :: "(nat \<Rightarrow> real) \<Rightarrow> int \<Rightarrow> city_world \<Rightarrow> city_world" where
  "city_animate rnd now w =
     (let (h, w1) = requestAnimationFrame w;
          w2 = w1\<lparr>animationIdRef := Some h\<rparr>;
          time = real_of_int now * 0.001;
          w3 = w2\<lparr>flyingObjectsRef := map moveVehicle (flyingObjectsRef w2)\<rparr>;
          r = tickSystems rnd (particleSystemsRef w3) (randomCalls w3);
          w4 = w3\<lparr>particleSystemsRef := fst r, randomCalls := snd r\<rparr>;
          w5 = (if cameraMode (cityCaptured w4) = ''cinematic''
                then w4\<lparr>cameraPosition :=
                        (cos (time * 0.1) * 50, 20 + sin (time * 0.05) * 10,
                         sin (time * 0.1) * 50)\<rparr>
                else w4)
      in w5\<lparr>draws := draws w5 + 1\<rparr>)"

definition city_handleResize :: "city_world \<Rightarrow> city_world" where
  "city_handleResize w =
     (if \<not> mountRef w then w
      else
        (let width = clientWidth w; height = clientHeight w
         in w\<lparr>aspect := js_div width height, rendererSize := (width, height)\<rparr>))"

text \<open>
  What the effect adds to the scene: the city grid, eight flying vehicles (pushed onto
  \<^verbatim>\<open>flyingObjectsRef.current\<close>) and, with effects enabled, the three particle systems.
  Lights and the ground plane have no state that later code reads.
\<close>

definition city_build :: "(nat \<Rightarrow> real) \<Rightarrow> city_config \<Rightarrow> city_world \<Rightarrow> city_world" where
  "city_build rnd cfg w =
     (let grid = cityGrid rnd (randomCalls w);
          w1 = w\<lparr>buildings := fst grid, randomCalls := snd grid\<rparr>;
          vs = vehiclesLoop rnd 0 (randomCalls w1) [];
          w2 = w1\<lparr>flyingObjectsRef := flyingObjectsRef w1 @ fst vs, randomCalls := snd vs\<rparr>
      in if effectsEnabled cfg then
           (let rainSystem = createParticleSystem rnd rain (randomCalls w2);
                sparksSystem = createParticleSystem rnd sparks (snd rainSystem);
                fogSystem = createParticleSystem rnd fog (snd sparksSystem)
            in w2\<lparr>particleSystemsRef := [fst rainSystem, fst sparksSystem, fst fogSystem],
                  randomCalls := snd fogSystem\<rparr>)
         else w2)"

definition city_mount :: "(nat \<Rightarrow> real) \<Rightarrow> city_config \<Rightarrow> int \<Rightarrow> city_world \<Rightarrow> city_world" where
  "city_mount rnd cfg now w =
     (if \<not> mountRef w then w
      else
        (let w1 = clearMount w
         in if rendererRef w1 \<noteq> None then w1
            else
              (let w2 = w1\<lparr>aspect := js_div (innerWidth w1) (innerHeight w1),
                          cameraPosition := (0, 20, 50)\<rparr>;
                   w3 = createRenderer (innerWidth w2) (innerHeight w2) w2;
                   w4 = w3\<lparr>controlsRef := True, cityCaptured := cfg\<rparr>;
                   w5 = city_build rnd cfg w4;
                   w6 = city_animate rnd now w5;
                   w7 = addEventListener WindowT resize w6
               in city_handleResize w7)))"

definition city_cleanup :: "city_world \<Rightarrow> city_world" where
  "city_cleanup w =
     (let w1 = removeEventListener WindowT resize w;
          w2 = (case animationIdRef w1 of
                  None \<Rightarrow> w1
                | Some h \<Rightarrow> if h = 0 then w1 else cancelAnimationFrame h w1);
          w3 = (if controlsRef w2 then released ControlsDispose w2 else w2);
          w4 = detachCanvases w3;
          w5 = released RendererDispose w4
      in w5\<lparr>rendererRef := None\<rparr>)"

definition city_unmount :: "city_world \<Rightarrow> city_world" where
  "city_unmount w = city_cleanup (w\<lparr>mountRef := False\<rparr>)"

definition city_rerun :: "(nat \<Rightarrow> real) \<Rightarrow> city_config \<Rightarrow> int \<Rightarrow> city_world \<Rightarrow> city_world" where
  "city_rerun rnd cfg now w = city_mount rnd cfg now (city_cleanup w)"

datatype city_event = CFrame int | CResizeEv nat nat

definition city_runFrame :: "(nat \<Rightarrow> real) \<Rightarrow> int \<Rightarrow> city_world \<Rightarrow> city_world" where
  "city_runFrame rnd now w =
     fold (\<lambda>_. city_animate rnd now) (rafPending w) (w\<lparr>rafPending := []\<rparr>)"

definition city_step :: "(nat \<Rightarrow> real) \<Rightarrow> city_event \<Rightarrow> city_world \<Rightarrow> city_world" where
  "city_step rnd ev w =
     (case ev of
        CFrame now \<Rightarrow> city_runFrame rnd now w
      | CResizeEv cw ch \<Rightarrow>
          (let w1 = w\<lparr>clientWidth := cw, clientHeight := ch\<rparr>
           in if (WindowT, resize) \<in> set (listeners w1) then city_handleResize w1 else w1))"

definition city_run :: "(nat \<Rightarrow> real) \<Rightarrow> city_event list \<Rightarrow> city_world \<Rightarrow> city_world" where
  "city_run rnd evs w = fold (city_step rnd) evs w"

datatype city_lifecycle = CHappens city_event | CRerun city_config int

fun city_life :: "(nat \<Rightarrow> real) \<Rightarrow> city_lifecycle \<Rightarrow> city_world \<Rightarrow> city_world" where
  "city_life rnd (CHappens ev) w = city_step rnd ev w"
| "city_life rnd (CRerun cfg now) w = city_rerun rnd cfg now w"

definition city_live :: "(nat \<Rightarrow> real) \<Rightarrow> city_lifecycle list \<Rightarrow> city_world \<Rightarrow> city_world" where
  "city_live rnd acts w = fold (city_life rnd) acts w"

definition city_page :: "nat \<Rightarrow> nat \<Rightarrow> nat \<Rightarrow> nat \<Rightarrow> real \<Rightarrow> city_world" where
  "city_page cw ch iw ih dpr =
     \<lparr>mountRef = True, clientWidth = cw, clientHeight = ch, innerWidth = iw, innerHeight = ih,
      devicePixelRatio = dpr, children = [], nextNode = 0, rafCounter = 0, rafPending = [],
      listeners = [], rendererRef = None, controlsRef = False, animationIdRef = None,
      canvas = 0, aspect = None, rendererSize = (0, 0), pixelRatio = 1, draws = 0,
      timeouts = 0, trace = [],
      buildings = [], flyingObjectsRef = [], particleSystemsRef = [], randomCalls = 0,
      cameraPosition = (0, 0, 0),
      cityCaptured = \<lparr>cameraMode = ''orbital'', timeOfDay = ''night'', effectsEnabled = True\<rparr>\<rparr>"

section \<open>Notions used to state the properties\<close>

declare zLoop.simps [simp del] xLoop.simps [simp del] galaxyLoop.simps [simp del]
  tickLoop.simps [simp del] seedLoop.simps [simp del]

text \<open>\<open>precedes a b xs\<close>: \<open>a\<close> occurs in \<open>xs\<close> and \<open>b\<close> occurs after its first occurrence.\<close>

fun precedes :: "'a \<Rightarrow> 'a \<Rightarrow> 'a list \<Rightarrow> bool" where
  "precedes a b [] = False"
| "precedes a b (x # xs) = (if x = a then b \<in> set xs else precedes a b xs)"

text \<open>
  \<open>bound w\<close>: a scene is mounted on the mount point. The ref holds the renderer whose
  canvas is the mount point's only child, one more renderer has been created than has
  been disposed, the controls exist, and the one pending frame request is the one whose
  handle is in \<^verbatim>\<open>animationIdRef.current\<close>.
\<close>

definition bound :: "'a host_scheme \<Rightarrow> bool" where
  "bound w =
     (mountRef w \<and> controlsRef w \<and> rendererRef w = Some (canvas w) \<and>
      children w = [CanvasNode (canvas w)] \<and>
      nextNode w = count_list (trace w) RendererDispose + 1 \<and>
      (case animationIdRef w of None \<Rightarrow> False | Some h \<Rightarrow> h \<noteq> 0 \<and> rafPending w = [h]))"

text \<open>Where a building stands: the x and z of its main mesh.\<close>

definition footprint :: "building \<Rightarrow> real \<times> real" where
  "footprint b = (case mesh_position (hd b) of (x, y, z) \<Rightarrow> (x, z))"

text \<open>
  The rotation about one axis after a drag: starting from \<open>r\<close> with the pointer at \<open>p\<close>,
  each pointer coordinate \<open>x\<close> in turn adds the move \<open>x - p\<close> times the sensitivity, every
  difference, product and sum rounded to a double. \<open>moves\<close> are the pointer positions of
  a gesture, ticks left out.
\<close>

fun dragged :: "real \<Rightarrow> real \<Rightarrow> real list \<Rightarrow> real" where
  "dragged r p [] = r"
| "dragged r p (x # xs) = dragged (f64 (r + f64 (f64 (x - p) * sensitivity))) x xs"

fun moves :: "drag_event list \<Rightarrow> (real \<times> real) list" where
  "moves [] = []"
| "moves (PointerMove x y # evs) = (x, y) # moves evs"
| "moves (Tick now # evs) = moves evs"

text \<open>
  Point \<open>p\<close> of a particle system occupies indices \<open>3p\<close>, \<open>3p + 1\<close>, \<open>3p + 2\<close>.
  \<open>moved a v\<close> is what \<^verbatim>\<open>positions[j] += velocities[j]\<close> stores for the values \<open>a\<close>, \<open>v\<close>.
  \<open>leaves\<close>: moved by its velocity, the point is below 0 or outside the square of
  half-width 100. \<open>advanced\<close>: in \<open>r\<close> the point is where its velocity took it.
  \<open>respawned\<close>: in \<open>r\<close> the point's vertical coordinate is at least 50.
\<close>

definition moved :: "real \<Rightarrow> real \<Rightarrow> real" where
  "moved a v = f32 (f64 (a + v))"

definition leaves :: "real list \<Rightarrow> real list \<Rightarrow> nat \<Rightarrow> bool" where
  "leaves pos vel p =
     (moved (pos ! (3 * p + 1)) (vel ! (3 * p + 1)) < 0 \<or>
      \<bar>moved (pos ! (3 * p)) (vel ! (3 * p))\<bar> > 100 \<or>
      \<bar>moved (pos ! (3 * p + 2)) (vel ! (3 * p + 2))\<bar> > 100)"

definition respawned :: "real list \<Rightarrow> nat \<Rightarrow> bool" where
  "respawned r p = (50 \<le> r ! (3 * p + 1))"

definition advanced :: "real list \<Rightarrow> real list \<Rightarrow> real list \<Rightarrow> nat \<Rightarrow> bool" where
  "advanced pos vel r p =
     (r ! (3 * p) = moved (pos ! (3 * p)) (vel ! (3 * p)) \<and>
      r ! (3 * p + 1) = moved (pos ! (3 * p + 1)) (vel ! (3 * p + 1)) \<and>
      r ! (3 * p + 2) = moved (pos ! (3 * p + 2)) (vel ! (3 * p + 2)))"





text \<open>Streams of random numbers used as concrete inputs.\<close>

definition twoPhase :: "nat \<Rightarrow> real" where
  "twoPhase j = (if j < 192 then 0 else 1 / 2)"

definition halves :: "nat \<Rightarrow> real" where
  "halves j = 1 / 2"

definition gust :: "nat \<Rightarrow> real" where
  "gust j =
     (if j = 0 then 8191 / 8192 else if j = 1 then 1 / 8 else if j = 3 then 3 / 4
      else if j = 4 then 0 else 1 / 2)"

section \<open>Rounding to a floating-point format\<close>

lemma rne_of_int: "rne (of_int n) = n"
  by (simp add: rne_def)

lemma rne_lower: "of_int n \<le> y \<Longrightarrow> n \<le> rne y"
proof -
  assume "of_int n \<le> y"
  then have "n \<le> \<lfloor>y\<rfloor>" by (simp add: le_floor_iff)
  then show "n \<le> rne y" by (simp add: rne_def Let_def)
qed

lemma rne_nonneg: "0 \<le> y \<Longrightarrow> 0 \<le> rne y"
  using rne_lower[of 0 y] by simp

lemma floor_log2: 
  assumes "2 powi e \<le> x" "x < 2 powi (e + 1)" 
  shows "\<lfloor>log 2 x\<rfloor> = e"
proof -
  have "0 < (2::real) powi e" by simp
  then have pos: "0 < x" using assms(1) by linarith
  have "2 powr (real_of_int e) \<le> x"
    using assms(1) by (simp add: powr_real_of_int')
  moreover have "(2::real) powr (real_of_int e + 1) = 2 powi (e + 1)"
    using powr_real_of_int'[of "2::real" "e + 1"] by simp
  then have "x < 2 powr (real_of_int e + 1)"
    using assms(2) by simp
  ultimately have "2 powr (real_of_int e) \<le> x \<and> x < 2 powr (real_of_int e + 1)"
    by simp
  then show ?thesis using pos by (simp add: floor_log_eq_powr_iff)
qed

lemma fround_eval:
  assumes "2 powi e \<le> \<bar>x\<bar>" "\<bar>x\<bar> < 2 powi (e + 1)"
  shows "fround p emin x =
     of_int (rne (x / 2 powi (max (e - (int p - 1)) emin))) * 2 powi (max (e - (int p - 1)) emin)"
proof -
  have "0 < (2::real) powi e" by simp
  then have "x \<noteq> 0" using assms(1) by linarith
  then show ?thesis by (simp add: fround_def floor_log2[OF assms] Let_def)
qed

lemma fround_nonneg: "0 \<le> x \<Longrightarrow> 0 \<le> fround p emin x"
  by (simp add: fround_def Let_def rne_nonneg)

lemma two_powi_floor_log: "0 < x \<Longrightarrow> 2 powi \<lfloor>log 2 x\<rfloor> \<le> x"
proof -
  assume pos: "0 < x"
  have "2 powr (real_of_int \<lfloor>log 2 x\<rfloor>) \<le> x"
    using pos floor_log_eq_powr_iff[of x 2 "\<lfloor>log 2 x\<rfloor>"] by simp
  then show ?thesis by (simp add: powr_real_of_int')
qed

lemma powi_split:
  fixes a b :: int
  assumes "a \<le> b"
  shows "(2::real) powi b = 2 powi a * 2 ^ nat (b - a)"
proof -
  have "(2::real) powi b = 2 powi (a + (b - a))" by simp
  also have "\<dots> = 2 powi a * 2 powi (b - a)" by (rule power_int_add) simp
  also have "(2::real) powi (b - a) = 2 ^ nat (b - a)"
    using assms by (simp add: power_int_def)
  finally show ?thesis .
qed

lemma fround_ge:
  fixes k j :: int
  assumes m: "m = of_int k * 2 powi j" and k: "0 < k" "of_int k < (2::real) ^ p" and j: "emin \<le> j"
    and p: "0 < p" and x: "m \<le> x"
  shows "m \<le> fround p emin x"
proof -
  have mpos: "0 < m" using m k(1) by simp
  then have xpos: "0 < x" using x by simp
  define e where "e = \<lfloor>log 2 x\<rfloor>"
  define E where "E = max (e - (int p - 1)) emin"
  have fr: "fround p emin x = of_int (rne (x / 2 powi E)) * 2 powi E"
    using xpos by (simp add: fround_def Let_def E_def e_def)
  have lo: "2 powi e \<le> x" unfolding e_def using xpos by (rule two_powi_floor_log)
  show ?thesis
  proof (cases "E \<le> j")
    case True
    have "(2::real) powi j = 2 powi E * 2 ^ nat (j - E)"
      using True by (rule powi_split)
    then have "m / 2 powi E = real_of_int (k * 2 ^ nat (j - E))"
      using m by simp
    then have "real_of_int (k * 2 ^ nat (j - E)) \<le> x / 2 powi E"
      using x by (metis divide_right_mono zero_le_numeral zero_le_power_int)
    then have "k * 2 ^ nat (j - E) \<le> rne (x / 2 powi E)" by (rule rne_lower)
    then have "real_of_int (k * 2 ^ nat (j - E)) \<le> real_of_int (rne (x / 2 powi E))"
      by (simp only: of_int_le_iff)
    then have "real_of_int (k * 2 ^ nat (j - E)) * 2 powi E
                 \<le> real_of_int (rne (x / 2 powi E)) * 2 powi E"
      by (rule mult_right_mono) simp
    moreover have "real_of_int (k * 2 ^ nat (j - E)) * 2 powi E = m"
      using \<open>m / 2 powi E = real_of_int (k * 2 ^ nat (j - E))\<close> by (simp add: field_simps)
    ultimately show ?thesis unfolding fr by linarith
  next
    case False
    then have EE: "E = e - (int p - 1)" using j by (simp add: E_def max_def split: if_splits)
    with False have ej: "j + int p \<le> e" by simp
    have "(2::real) powi (j + int p) = 2 powi j * 2 ^ p"
      using powi_split[of j "j + int p"] by simp
    then have "m < 2 powi (j + int p)"
      using m k(2) by simp
    also have "\<dots> \<le> 2 powi e" using ej by (intro power_int_increasing) simp_all
    finally have me: "m < 2 powi e" .
    have "nat (e - E) = p - 1" using p by (simp add: EE)
    then have "(2::real) powi e = 2 ^ (p - 1) * 2 powi E"
      using powi_split[of E e] p by (simp add: EE mult.commute)
    then have "real_of_int (2 ^ (p - 1)) \<le> x / 2 powi E"
      using lo by (simp add: field_simps)
    then have "2 ^ (p - 1) \<le> rne (x / 2 powi E)" by (rule rne_lower)
    then have "real_of_int (2 ^ (p - 1)) \<le> real_of_int (rne (x / 2 powi E))"
      by (simp only: of_int_le_iff)
    then have "real_of_int (2 ^ (p - 1)) * 2 powi E \<le> real_of_int (rne (x / 2 powi E)) * 2 powi E"
      by (rule mult_right_mono) simp
    then have "2 powi e \<le> fround p emin x"
      unfolding fr using \<open>(2::real) powi e = 2 ^ (p - 1) * 2 powi E\<close> by simp
    then show ?thesis using me by simp
  qed
qed

lemma f32_ge_50: "50 \<le> x \<Longrightarrow> 50 \<le> f32 x"
  unfolding f32_def by (rule fround_ge[where k = 25 and j = 1]) simp_all

lemma f64_ge_50: "50 \<le> x \<Longrightarrow> 50 \<le> f64 x"
  unfolding f64_def by (rule fround_ge[where k = 25 and j = 1]) simp_all

lemma fround_exact:
  fixes m j :: int
  assumes x: "x = of_int m * 2 powi j" and m: "\<bar>real_of_int m\<bar> < 2 ^ p" and j: "emin \<le> j"
    and p: "0 < p"
  shows "fround p emin x = x"
proof (cases "m = 0")
  case True
  then show ?thesis using x by (simp add: fround_def)
next
  case False
  then have x0: "x \<noteq> 0" using x by simp
  define e where "e = \<lfloor>log 2 \<bar>x\<bar>\<rfloor>"
  define E where "E = max (e - (int p - 1)) emin"
  have fr: "fround p emin x = of_int (rne (x / 2 powi E)) * 2 powi E"
    using x0 by (simp add: fround_def Let_def E_def e_def)
  have lo: "2 powi e \<le> \<bar>x\<bar>" unfolding e_def using x0 by (intro two_powi_floor_log) simp
  have "(2::real) powi (j + int p) = 2 powi j * 2 ^ p"
    using powi_split[of j "j + int p"] by simp
  moreover have "\<bar>x\<bar> = \<bar>real_of_int m\<bar> * 2 powi j"
    using x by (simp add: abs_mult)
  ultimately have "\<bar>x\<bar> < 2 powi (j + int p)"
    using m by simp
  with lo have "(2::real) powi e < 2 powi (j + int p)" by simp
  have "e < j + int p"
  proof (rule ccontr)
    assume "\<not> e < j + int p"
    then have "j + int p \<le> e" by simp
    then have "(2::real) powi (j + int p) \<le> 2 powi e"
      by (intro power_int_increasing) simp_all
    with \<open>(2::real) powi e < 2 powi (j + int p)\<close> show False by simp
  qed
  then have Ej: "E \<le> j" using j by (simp add: E_def)
  have "(2::real) powi j = 2 powi E * 2 ^ nat (j - E)" using Ej by (rule powi_split)
  then have "x / 2 powi E = real_of_int (m * 2 ^ nat (j - E))"
    using x by simp
  then have "rne (x / 2 powi E) = m * 2 ^ nat (j - E)"
    by (simp only: rne_of_int)
  then have "fround p emin x = real_of_int (m * 2 ^ nat (j - E)) * 2 powi E"
    using fr by simp
  also have "\<dots> = x"
    using \<open>x / 2 powi E = real_of_int (m * 2 ^ nat (j - E))\<close> by (simp add: field_simps)
  finally show ?thesis .
qed

lemma fround_exact_eq:
  fixes m j :: int
  assumes "y = of_int m * 2 powi j" and "x = y" and "\<bar>real_of_int m\<bar> < 2 ^ p"
    and "emin \<le> j" and "0 < p"
  shows "fround p emin x = y"
  using fround_exact[OF assms(1) assms(3-5)] assms(2) by simp

lemma f64_int: "\<bar>real_of_int m\<bar> < 2 ^ 53 \<Longrightarrow> f64 (of_int m) = of_int m"
  unfolding f64_def by (rule fround_exact[where m = m and j = 0]) simp_all

lemma f32_int: "\<bar>real_of_int m\<bar> < 2 ^ 24 \<Longrightarrow> f32 (of_int m) = of_int m"
  unfolding f32_def by (rule fround_exact[where m = m and j = 0]) simp_all

lemma sensitivity_val: "sensitivity = 5764607523034235 / 2 ^ 59"
  unfolding sensitivity_def f64_def
  by (subst fround_eval[where e = "- 7"]) (simp_all add: rne_def power_int_minus)

lemma f64_zero: "f64 0 = 0" and f32_zero: "f32 0 = 0"
  by (simp_all add: f64_def f32_def fround_def)

lemma f64_numeral: "(numeral n :: real) < 2 ^ 53 \<Longrightarrow> f64 (numeral n) = numeral n"
  using f64_int[of "numeral n"] by simp

lemma f32_numeral: "(numeral n :: real) < 2 ^ 24 \<Longrightarrow> f32 (numeral n) = numeral n"
  using f32_int[of "numeral n"] by simp

lemma f64_neg_numeral: "(numeral n :: real) < 2 ^ 53 \<Longrightarrow> f64 (- numeral n) = - numeral n"
  using f64_int[of "- numeral n"] by simp

lemma f32_neg_numeral: "(numeral n :: real) < 2 ^ 24 \<Longrightarrow> f32 (- numeral n) = - numeral n"
  using f32_int[of "- numeral n"] by simp

lemma f64_tenth: "f64 (1 / 10) = 3602879701896397 / 2 ^ 55"
  unfolding f64_def
  by (subst fround_eval[where e = "- 4"]) (simp_all add: rne_def power_int_minus)

section \<open>Properties of the frame tick\<close>

lemma animate_cubeRef:
  "cubeRef (animate now w) =
     map_option (\<lambda>c. floating (captured w) now (autoRotation (captured w) (isDraggingRef w) c))
       (cubeRef w)"
  by (simp add: animate_def requestAnimationFrame_def Let_def split: option.split)

lemma mount_page_cubeRef:
  "cubeRef (mount cfg now (page cw ch iw ih dpr)) =
     Some (floating cfg now (autoRotation cfg False (newCube cfg)))"
  by (simp add: mount_def page_def clearMount_def Let_def createRenderer_def appendChild_def
      addEventListener_def animate_cubeRef)

lemma mount_page_captured: "captured (mount cfg now (page cw ch iw ih dpr)) = cfg"
  by (simp add: mount_def page_def clearMount_def Let_def createRenderer_def appendChild_def
      addEventListener_def animate_def requestAnimationFrame_def split: option.split)

lemma mount_page_isDragging: "\<not> isDraggingRef (mount cfg now (page cw ch iw ih dpr))"
  by (simp add: mount_def page_def clearMount_def Let_def createRenderer_def appendChild_def
      addEventListener_def animate_def requestAnimationFrame_def split: option.split)

text \<open>
  C10. With auto-rotation off, every tick puts the cube's vertical position at exactly 0,
  dragging or not; the sine float is what a tick writes exactly when auto-rotation is on.
\<close>

theorem C10_grounded_in_manual_mode:
  "cubeRef w = Some c \<Longrightarrow>
     (\<exists>c'. cubeRef (animate now w) = Some c' \<and>
        position_y c' =
          (if autoRotate (captured w) then sin (real_of_int now * 0.001) * 0.2 else 0))"
  by (simp add: animate_cubeRef floating_def)

theorem C10_grounded_in_manual_mode_witness:
  "\<exists>c'. cubeRef (animate 5 (mount (defaultConfig\<lparr>autoRotate := False\<rparr>) 0
                                 (page 800 600 1024 768 1))) = Some c' \<and>
        position_y c' = 0"
  using C10_grounded_in_manual_mode
    [where now = 5 and
       w = "mount (defaultConfig\<lparr>autoRotate := False\<rparr>) 0 (page 800 600 1024 768 1)"]
  by (simp add: mount_page_cubeRef mount_page_captured)

lemma mount_page_rafPending: "rafPending (mount cfg now (page cw ch iw ih dpr)) = [1]"
  by (simp add: mount_def page_def clearMount_def Let_def createRenderer_def appendChild_def
      addEventListener_def animate_def requestAnimationFrame_def split: option.split)

lemma animate_rafPending_update:
  "cubeRef (animate now (w\<lparr>rafPending := p\<rparr>)) = cubeRef (animate now w)"
  by (simp add: animate_cubeRef)

lemma frame_after_mount_cubeRef:
  "cubeRef (step (Frame now) (mount cfg now0 (page cw ch iw ih dpr))) =
     cubeRef (animate now (mount cfg now0 (page cw ch iw ih dpr)))"
  by (simp add: step_def runFrame_def mount_page_rafPending animate_rafPending_update)

text \<open>
  C4. Mounted on a fresh page with the default configuration (colour #00ff88, size 1.5,
  auto-rotation on, speed 1, solid material), one display refresh advances the cube's
  rotation by 0.01 * speed about both the x and the y axis and sets its vertical position
  to sin(t) * 0.2, where t is \<^verbatim>\<open>Date.now() * 0.001\<close> in that tick.
\<close>

theorem C4_default_config_tick:
  "\<exists>c c'. cubeRef (mount defaultConfig now0 (page cw ch iw ih dpr)) = Some c \<and>
      cubeRef (step (Frame now) (mount defaultConfig now0 (page cw ch iw ih dpr))) = Some c' \<and>
      rotation_x c' = rotation_x c + 0.01 * rotationSpeed defaultConfig \<and>
      rotation_y c' = rotation_y c + 0.01 * rotationSpeed defaultConfig \<and>
      rotationSpeed defaultConfig = 1 \<and>
      position_y c' = sin (real_of_int now * 0.001) * 0.2"
  by (simp add: frame_after_mount_cubeRef animate_cubeRef mount_page_cubeRef
      mount_page_captured mount_page_isDragging floating_def autoRotation_def defaultConfig_def)

section \<open>The drag gesture\<close>

lemma animate_keeps_drag:
  "isDraggingRef (animate now w) = isDraggingRef w"
  "previousMousePositionRef (animate now w) = previousMousePositionRef w"
  by (simp_all add: animate_def requestAnimationFrame_def Let_def split: option.split)

lemma tick_in_drag:
  assumes "isDraggingRef w" and "cubeRef w = Some c"
  shows "\<exists>c'. cubeRef (animate now w) = Some c' \<and>
           rotation_y c' = rotation_y c \<and> rotation_x c' = rotation_x c"
  using assms by (simp add: animate_cubeRef floating_def autoRotation_def)

lemma move_in_drag:
  assumes "isDraggingRef w" and "cubeRef w = Some c"
  shows "\<exists>c'. cubeRef (handleMouseMove x y w) = Some c' \<and>
           isDraggingRef (handleMouseMove x y w) \<and>
           previousMousePositionRef (handleMouseMove x y w) = (x, y) \<and>
           rotation_y c' =
             f64 (rotation_y c + f64 (f64 (x - fst (previousMousePositionRef w)) * sensitivity)) \<and>
           rotation_x c' =
             f64 (rotation_x c + f64 (f64 (y - snd (previousMousePositionRef w)) * sensitivity))"
  using assms by (simp add: handleMouseMove_def Let_def)

lemma drag_invariant:
  "isDraggingRef w \<Longrightarrow> cubeRef w = Some c \<Longrightarrow>
     \<exists>c'. cubeRef (fold during_drag evs w) = Some c' \<and> isDraggingRef (fold during_drag evs w) \<and>
       rotation_y c' =
         dragged (rotation_y c) (fst (previousMousePositionRef w)) (map fst (moves evs)) \<and>
       rotation_x c' =
         dragged (rotation_x c) (snd (previousMousePositionRef w)) (map snd (moves evs))"
proof (induction evs arbitrary: w c rule: moves.induct)
  case 1
  then show ?case by simp
next
  case (2 x y evs)
  from move_in_drag[OF "2.prems", of x y] obtain c1 where
    c1: "cubeRef (handleMouseMove x y w) = Some c1" "isDraggingRef (handleMouseMove x y w)"
      "previousMousePositionRef (handleMouseMove x y w) = (x, y)"
      "rotation_y c1 =
         f64 (rotation_y c + f64 (f64 (x - fst (previousMousePositionRef w)) * sensitivity))"
      "rotation_x c1 =
         f64 (rotation_x c + f64 (f64 (y - snd (previousMousePositionRef w)) * sensitivity))"
    by blast
  from "2.IH"[OF c1(2) c1(1)] c1(3,4,5) show ?case by simp
next
  case (3 now evs)
  from tick_in_drag[OF "3.prems", of now] obtain c1 where
    c1: "cubeRef (animate now w) = Some c1" "rotation_y c1 = rotation_y c"
      "rotation_x c1 = rotation_x c"
    by blast
  have d: "isDraggingRef (animate now w)" using "3.prems"(1) by (simp add: animate_keeps_drag)
  from "3.IH"[OF d c1(1)] c1(2,3) show ?case by (simp add: animate_keeps_drag)
qed

lemma dragged_vertical: "dragged 0 100 [120, 90] = - 900719925474099 / 2 ^ 53"
proof -
  have a: "f64 (120 - 100) = 20" using f64_int[of 20] by simp
  have b: "f64 (20 * sensitivity) = 3602879701896397 / 2 ^ 54"
    unfolding sensitivity_val f64_def
    by (subst fround_eval[where e = "- 3"]) (simp_all add: rne_def power_int_minus)
  have c: "f64 (0 + 3602879701896397 / 2 ^ 54) = 3602879701896397 / 2 ^ 54"
    unfolding f64_def
    by (rule fround_exact_eq[where m = 3602879701896397 and j = "- 54"])
      (simp_all add: power_int_minus)
  have d: "f64 (90 - 120) = - 30" using f64_int[of "- 30"] by simp
  have e: "f64 (- 30 * sensitivity) = - 5404319552844595 / 2 ^ 54"
    unfolding sensitivity_val f64_def
    by (subst fround_eval[where e = "- 2"]) (simp_all add: rne_def power_int_minus)
  have f: "f64 (3602879701896397 / 2 ^ 54 + - 5404319552844595 / 2 ^ 54)
             = - 900719925474099 / 2 ^ 53"
    unfolding f64_def
    by (rule fround_exact_eq[where m = "- 900719925474099" and j = "- 53"])
      (simp_all add: power_int_minus)
  show ?thesis by (simp only: dragged.simps a b c d e f)
qed

lemma claimed_vertical: "f64 ((90 - 100) * sensitivity) = - 3602879701896397 / 2 ^ 55"
  unfolding sensitivity_val f64_def
  by (subst fround_eval[where e = "- 4"]) (simp_all add: rne_def power_int_minus)

lemma dragged_horizontal: "dragged 0 100 [130, 150] = 1 / 2"
proof -
  have a: "f64 (130 - 100) = 30" using f64_int[of 30] by simp
  have b: "f64 (30 * sensitivity) = 5404319552844595 / 2 ^ 54"
    unfolding sensitivity_val f64_def
    by (subst fround_eval[where e = "- 2"]) (simp_all add: rne_def power_int_minus)
  have c: "f64 (0 + 5404319552844595 / 2 ^ 54) = 5404319552844595 / 2 ^ 54"
    unfolding f64_def
    by (rule fround_exact_eq[where m = 5404319552844595 and j = "- 54"])
      (simp_all add: power_int_minus)
  have d: "f64 (150 - 130) = 20" using f64_int[of 20] by simp
  have e: "f64 (20 * sensitivity) = 3602879701896397 / 2 ^ 54"
    unfolding sensitivity_val f64_def
    by (subst fround_eval[where e = "- 3"]) (simp_all add: rne_def power_int_minus)
  have f: "f64 (5404319552844595 / 2 ^ 54 + 3602879701896397 / 2 ^ 54) = 1 / 2"
    unfolding f64_def
    by (rule fround_exact_eq[where m = 1 and j = "- 1"]) (simp_all add: power_int_minus)
  show ?thesis by (simp only: dragged.simps a b c d e f)
qed

text \<open>
  C3, as the code has it. A drag gesture (pointer down at \<open>(x0, y0)\<close>, pointer moves with
  frame ticks falling anywhere between them, pointer up) leaves the cube with the rotation
  that the pointer moves alone produce: about the y axis the value \<open>dragged\<close> computes
  from the x coordinates of the moves, about the x axis the one it computes from their y
  coordinates. Each move adds its own product of pointer difference and the sensitivity
  0.01, rounded to a double, to the rotation. No tick during the drag changes the
  rotation, so automatic rotation is suppressed for the whole drag, and the drag flag is
  cleared when the gesture ends.
\<close>

theorem C3_drag_rotation_delta:
  "cubeRef w = Some c \<Longrightarrow>
     \<exists>c'. cubeRef (gesture x0 y0 evs w) = Some c' \<and>
       \<not> isDraggingRef (gesture x0 y0 evs w) \<and>
       rotation_y c' = dragged (rotation_y c) x0 (map fst (moves evs)) \<and>
       rotation_x c' = dragged (rotation_x c) y0 (map snd (moves evs))"
  using drag_invariant[of "handleMouseDown x0 y0 w" c evs]
  by (auto simp add: gesture_def handleMouseUp_def handleMouseDown_def)

theorem C3_drag_rotation_delta_witness:
  "\<exists>c'. cubeRef (gesture 100 100 [PointerMove 130 120, Tick 16, PointerMove 150 90]
                   (mount (defaultConfig\<lparr>autoRotate := False\<rparr>) 0 (page 800 600 1024 768 1)))
             = Some c' \<and>
     \<not> isDraggingRef (gesture 100 100 [PointerMove 130 120, Tick 16, PointerMove 150 90]
                   (mount (defaultConfig\<lparr>autoRotate := False\<rparr>) 0 (page 800 600 1024 768 1))) \<and>
     rotation_y c' = 1 / 2 \<and> rotation_x c' = - 900719925474099 / 2 ^ 53"
  using C3_drag_rotation_delta
    [where w = "mount (defaultConfig\<lparr>autoRotate := False\<rparr>) 0 (page 800 600 1024 768 1)" and
       ?x0.0 = 100 and ?y0.0 = 100 and
       evs = "[PointerMove 130 120, Tick 16, PointerMove 150 90]" and
       c = "newCube (defaultConfig\<lparr>autoRotate := False\<rparr>)"]
  by (simp add: mount_page_cubeRef floating_def autoRotation_def newCube_def
      dragged_horizontal dragged_vertical del: dragged.simps)

text \<open>
  The rotation of a gesture is the sum of the rounded products of its moves, not the
  product of the pointer's total travel and the sensitivity. With auto-rotation off, a
  drag from (100, 100) through (130, 120) to (150, 90) moves the pointer by -10
  vertically and takes \<^verbatim>\<open>rotation.x\<close> from 0 to -900719925474099 / 2^53, that is
  -0.09999999999999998. This is not -10 times the sensitivity, nor that product rounded
  to a double (-0.1), nor -10 times 0.01.
\<close>

theorem C3_rounded_sum_differs:
  "map_option rotation_x
     (cubeRef (mount (defaultConfig\<lparr>autoRotate := False\<rparr>) 0 (page 800 600 1024 768 1))) = Some 0 \<and>
   map_option rotation_x
     (cubeRef (gesture 100 100 [PointerMove 130 120, PointerMove 150 90]
        (mount (defaultConfig\<lparr>autoRotate := False\<rparr>) 0 (page 800 600 1024 768 1))))
     = Some (- 900719925474099 / 2 ^ 53) \<and>
   (- 900719925474099 / 2 ^ 53 :: real) \<noteq> (90 - 100) * sensitivity \<and>
   (- 900719925474099 / 2 ^ 53 :: real) \<noteq> f64 ((90 - 100) * sensitivity) \<and>
   (- 900719925474099 / 2 ^ 53 :: real) \<noteq> (90 - 100) * (1 / 100)"
proof -
  let ?w = "mount (defaultConfig\<lparr>autoRotate := False\<rparr>) 0 (page 800 600 1024 768 1)"
  have start: "cubeRef ?w = Some (newCube (defaultConfig\<lparr>autoRotate := False\<rparr>))"
    by (simp add: mount_page_cubeRef floating_def autoRotation_def newCube_def)
  from drag_invariant[of "handleMouseDown 100 100 ?w" _ "[PointerMove 130 120, PointerMove 150 90]"]
    start
  have "map_option rotation_x
     (cubeRef (gesture 100 100 [PointerMove 130 120, PointerMove 150 90] ?w))
     = Some (dragged 0 100 [120, 90])"
    by (auto simp add: gesture_def handleMouseUp_def handleMouseDown_def newCube_def
        simp del: dragged.simps)
  then have g: "map_option rotation_x
     (cubeRef (gesture 100 100 [PointerMove 130 120, PointerMove 150 90] ?w))
     = Some (- 900719925474099 / 2 ^ 53)"
    by (simp only: dragged_vertical)
  have s: "map_option rotation_x (cubeRef ?w) = Some 0"
    by (simp add: start newCube_def)
  have n1: "(- 900719925474099 / 2 ^ 53 :: real) \<noteq> (90 - 100) * sensitivity"
    by (simp add: sensitivity_val)
  have n2: "(- 900719925474099 / 2 ^ 53 :: real) \<noteq> f64 ((90 - 100) * sensitivity)"
    unfolding claimed_vertical by simp
  have n3: "(- 900719925474099 / 2 ^ 53 :: real) \<noteq> (90 - 100) * (1 / 100)"
    by simp
  from s g n1 n2 n3 show ?thesis by blast
qed

section \<open>The frame request across the life of a scene\<close>

lemma animate_fields:
  "mountRef (animate now w) = mountRef w"
  "controlsRef (animate now w) = controlsRef w"
  "children (animate now w) = children w"
  "canvas (animate now w) = canvas w"
  "trace (animate now w) = trace w"
  "rendererRef (animate now w) = rendererRef w"
  "listeners (animate now w) = listeners w"
  "draws (animate now w) = draws w + 1"
  "rafCounter (animate now w) = rafCounter w + 1"
  "rafPending (animate now w) = rafPending w @ [rafCounter w + 1]"
  "animationIdRef (animate now w) = Some (rafCounter w + 1)"
  by (simp_all add: animate_def requestAnimationFrame_def Let_def split: option.split)

lemma runFrame_one:
  "rafPending w = [h] \<Longrightarrow> runFrame now w = animate now (w\<lparr>rafPending := []\<rparr>)"
  by (simp add: runFrame_def)

lemma runFrame_none: "rafPending w = [] \<Longrightarrow> runFrame now w = w"
  by (simp add: runFrame_def)

lemma step_live:
  assumes "rafPending w = [h]" "animationIdRef w = Some h" "h \<noteq> 0"
  shows "\<exists>h'. rafPending (step ev w) = [h'] \<and> animationIdRef (step ev w) = Some h' \<and> h' \<noteq> 0"
  using assms
  by (cases ev)
    (simp_all add: step_def runFrame_one animate_fields handleMouseDown_def handleMouseMove_def
      handleMouseUp_def handleResize_def Let_def split: option.split)

lemma step_static:
  "mountRef (step ev w) = mountRef w \<and> controlsRef (step ev w) = controlsRef w \<and>
   children (step ev w) = children w \<and> canvas (step ev w) = canvas w \<and>
   trace (step ev w) = trace w"
proof (cases ev)
  case (Frame now)
  have "mountRef (fold (\<lambda>_. animate now) hs v) = mountRef v \<and>
        controlsRef (fold (\<lambda>_. animate now) hs v) = controlsRef v \<and>
        children (fold (\<lambda>_. animate now) hs v) = children v \<and>
        canvas (fold (\<lambda>_. animate now) hs v) = canvas v \<and>
        trace (fold (\<lambda>_. animate now) hs v) = trace v" for hs :: "nat list" and v
    by (induction hs arbitrary: v) (simp_all add: animate_fields)
  with Frame show ?thesis by (simp add: step_def runFrame_def)
qed (simp_all add: step_def handleMouseDown_def handleMouseMove_def
      handleMouseUp_def handleResize_def Let_def split: option.split)

lemma run_live:
  "rafPending w = [h] \<Longrightarrow> animationIdRef w = Some h \<Longrightarrow> h \<noteq> 0 \<Longrightarrow>
   \<exists>h'. rafPending (run evs w) = [h'] \<and> animationIdRef (run evs w) = Some h' \<and> h' \<noteq> 0"
proof (induction evs arbitrary: w h)
  case Nil
  then show ?case by (simp add: run_def)
next
  case (Cons ev evs)
  from step_live[OF Cons.prems, of ev] obtain h1 where
    "rafPending (step ev w) = [h1]" "animationIdRef (step ev w) = Some h1" "h1 \<noteq> 0"
    by blast
  from Cons.IH[OF this] show ?case by (simp add: run_def)
qed

lemma run_static:
  "mountRef (run evs w) = mountRef w \<and> controlsRef (run evs w) = controlsRef w \<and>
   children (run evs w) = children w \<and> canvas (run evs w) = canvas w \<and>
   trace (run evs w) = trace w"
  by (induction evs arbitrary: w) (simp_all add: run_def step_static)

lemma step_idle:
  "rafPending w = [] \<Longrightarrow> rafPending (step ev w) = [] \<and> draws (step ev w) = draws w"
  by (cases ev)
    (simp_all add: step_def runFrame_none handleMouseDown_def handleMouseMove_def
      handleMouseUp_def handleResize_def Let_def split: option.split)

lemma run_idle:
  "rafPending w = [] \<Longrightarrow> rafPending (run evs w) = [] \<and> draws (run evs w) = draws w"
  by (induction evs arbitrary: w) (simp_all add: run_def step_idle)

lemma removeEach_fields:
  "rafPending (removeEach cs w) = rafPending w"
  "draws (removeEach cs w) = draws w"
  "trace (removeEach cs w) = trace w @ map RemoveChild cs"
  by (induction cs arbitrary: w) (simp_all add: removeChild_def)

lemma detachCanvases_fields:
  "rafPending (detachCanvases w) = rafPending w"
  "draws (detachCanvases w) = draws w"
  by (simp_all add: detachCanvases_def removeEach_fields removeChild_def Let_def)

lemma cleanup_stops:
  "rafPending w = [h] \<Longrightarrow> animationIdRef w = Some h \<Longrightarrow> h \<noteq> 0 \<Longrightarrow>
   rafPending (cleanup w) = [] \<and> draws (cleanup w) = draws w"
  by (simp add: cleanup_def Let_def removeEventListener_def cancelAnimationFrame_def
      released_def detachCanvases_fields)

lemma mount_page_live:
  "rafPending (mount cfg now (page cw ch iw ih dpr)) = [1] \<and>
   animationIdRef (mount cfg now (page cw ch iw ih dpr)) = Some 1"
  by (simp add: mount_def page_def clearMount_def Let_def createRenderer_def appendChild_def
      addEventListener_def animate_fields)

lemma galaxy_animate_fields:
  "mountRef (galaxy_animate w) = mountRef w"
  "controlsRef (galaxy_animate w) = controlsRef w"
  "children (galaxy_animate w) = children w"
  "canvas (galaxy_animate w) = canvas w"
  "trace (galaxy_animate w) = trace w"
  "rendererRef (galaxy_animate w) = rendererRef w"
  "listeners (galaxy_animate w) = listeners w"
  "draws (galaxy_animate w) = draws w + 1"
  "rafCounter (galaxy_animate w) = rafCounter w + 1"
  "rafPending (galaxy_animate w) = rafPending w @ [rafCounter w + 1]"
  "animationIdRef (galaxy_animate w) = Some (rafCounter w + 1)"
  "bufs (galaxy_animate w) = bufs w"
  "uTime (galaxy_animate w) = timeRef w + 0.01"
  "timeRef (galaxy_animate w) = timeRef w + 0.01"
  "particles_rotation_y (galaxy_animate w) =
     (if particleSystemRef w then (timeRef w + 0.01) * 0.02 else particles_rotation_y w)"
  by (simp_all add: galaxy_animate_def requestAnimationFrame_def Let_def)

lemma galaxy_runFrame_one:
  "rafPending w = [h] \<Longrightarrow> galaxy_runFrame w = galaxy_animate (w\<lparr>rafPending := []\<rparr>)"
  by (simp add: galaxy_runFrame_def)

lemma galaxy_runFrame_none: "rafPending w = [] \<Longrightarrow> galaxy_runFrame w = w"
  by (simp add: galaxy_runFrame_def)

lemma galaxy_step_live:
  assumes "rafPending w = [h]" "animationIdRef w = Some h" "h \<noteq> 0"
  shows "\<exists>h'. rafPending (galaxy_step ev w) = [h'] \<and>
           animationIdRef (galaxy_step ev w) = Some h' \<and> h' \<noteq> 0"
  using assms
  by (cases ev)
    (simp_all add: galaxy_step_def galaxy_runFrame_one galaxy_animate_fields
      galaxy_handleResize_def Let_def)

lemma galaxy_run_live:
  "rafPending w = [h] \<Longrightarrow> animationIdRef w = Some h \<Longrightarrow> h \<noteq> 0 \<Longrightarrow>
   \<exists>h'. rafPending (galaxy_run evs w) = [h'] \<and>
      animationIdRef (galaxy_run evs w) = Some h' \<and> h' \<noteq> 0"
proof (induction evs arbitrary: w h)
  case Nil
  then show ?case by (simp add: galaxy_run_def)
next
  case (Cons ev evs)
  from galaxy_step_live[OF Cons.prems, of ev] obtain h1 where
    "rafPending (galaxy_step ev w) = [h1]" "animationIdRef (galaxy_step ev w) = Some h1" "h1 \<noteq> 0"
    by blast
  from Cons.IH[OF this] show ?case by (simp add: galaxy_run_def)
qed

lemma galaxy_step_idle:
  "rafPending w = [] \<Longrightarrow>
   rafPending (galaxy_step ev w) = [] \<and> draws (galaxy_step ev w) = draws w"
  by (cases ev)
    (simp_all add: galaxy_step_def galaxy_runFrame_none galaxy_handleResize_def Let_def)

lemma galaxy_run_idle:
  "rafPending w = [] \<Longrightarrow>
   rafPending (galaxy_run evs w) = [] \<and> draws (galaxy_run evs w) = draws w"
  by (induction evs arbitrary: w) (simp_all add: galaxy_run_def galaxy_step_idle)

lemma released_fields:
  "rafPending (released a w) = rafPending w" "draws (released a w) = draws w"
  by (simp_all add: released_def)

lemma dispose_moons_fields:
  "rafPending (fold disposeMoon ms v) = rafPending v \<and> draws (fold disposeMoon ms v) = draws v"
  by (induction ms arbitrary: v) (simp_all add: disposeMoon_def released_fields)

lemma dispose_planets_fields:
  "rafPending (fold disposePlanet ps v) = rafPending v \<and>
   draws (fold disposePlanet ps v) = draws v"
  by (induction ps arbitrary: v)
    (simp_all add: disposePlanet_def Let_def released_fields dispose_moons_fields
      split: option.split)

lemma galaxy_cleanup_stops:
  "rafPending w = [h] \<Longrightarrow> animationIdRef w = Some h \<Longrightarrow> h \<noteq> 0 \<Longrightarrow>
   rafPending (galaxy_cleanup w) = [] \<and> draws (galaxy_cleanup w) = draws w"
  by (simp add: galaxy_cleanup_def Let_def dispose_planets_fields released_fields
      detachCanvases_fields removeEventListener_def cancelAnimationFrame_def)

lemma galaxy_mount_page_live:
  "rafPending (galaxy_mount rnd ci co (galaxy_page cw ch iw ih dpr)) = [1] \<and>
   animationIdRef (galaxy_mount rnd ci co (galaxy_page cw ch iw ih dpr)) = Some 1"
  by (simp add: galaxy_mount_def galaxy_page_def clearMount_def Let_def createRenderer_def
      appendChild_def addEventListener_def galaxy_animate_fields)

text \<open>
  C7. Mount the cube scene (or the galaxy scene) on a fresh page, let any events happen,
  run the effect's cleanup, and let any events happen again, display refreshes included:
  the browser's animation-frame list is empty afterwards and the number of
  \<^verbatim>\<open>renderer.render\<close> calls is what it was when the cleanup began. The tick that was queued
  when the cleanup ran never runs.
\<close>

theorem C7_no_frame_after_teardown:
  "rafPending (run evs' (cleanup (run evs (mount cfg now (page cw ch iw ih dpr))))) = [] \<and>
   draws (run evs' (cleanup (run evs (mount cfg now (page cw ch iw ih dpr)))))
     = draws (run evs (mount cfg now (page cw ch iw ih dpr))) \<and>
   rafPending (galaxy_run gs' (galaxy_cleanup (galaxy_run gs
       (galaxy_mount rnd ci co (galaxy_page cw ch iw ih dpr))))) = [] \<and>
   draws (galaxy_run gs' (galaxy_cleanup (galaxy_run gs
       (galaxy_mount rnd ci co (galaxy_page cw ch iw ih dpr)))))
     = draws (galaxy_run gs (galaxy_mount rnd ci co (galaxy_page cw ch iw ih dpr)))"
proof -
  let ?w = "mount cfg now (page cw ch iw ih dpr)"
  let ?g = "galaxy_mount rnd ci co (galaxy_page cw ch iw ih dpr)"
  from run_live[of ?w 1 evs] mount_page_live obtain h where
    h: "rafPending (run evs ?w) = [h]" "animationIdRef (run evs ?w) = Some h" "h \<noteq> 0"
    by auto
  from cleanup_stops[OF h] have
    c: "rafPending (cleanup (run evs ?w)) = []" "draws (cleanup (run evs ?w)) = draws (run evs ?w)"
    by simp_all
  from galaxy_run_live[of ?g 1 gs] galaxy_mount_page_live obtain k where
    k: "rafPending (galaxy_run gs ?g) = [k]" "animationIdRef (galaxy_run gs ?g) = Some k" "k \<noteq> 0"
    by auto
  from galaxy_cleanup_stops[OF k] have
    d: "rafPending (galaxy_cleanup (galaxy_run gs ?g)) = []"
       "draws (galaxy_cleanup (galaxy_run gs ?g)) = draws (galaxy_run gs ?g)"
    by simp_all
  from run_idle[OF c(1), of evs'] c(2) galaxy_run_idle[OF d(1), of gs'] d(2)
  show ?thesis by simp
qed

section \<open>The galaxy's point buffers\<close>

























section \<open>Resizing\<close>

text \<open>
  C5. With a mount point whose measured box is W by H, both positive, one call of the
  resize handler (the cube's, and the galaxy's) sets the camera's aspect to exactly W / H
  and the renderer's size to W by H, and a second call with the box unchanged leaves the
  whole state as the first call left it.
\<close>

theorem C5_resize_exact_and_idempotent:
  "mountRef w \<Longrightarrow> 0 < clientWidth w \<Longrightarrow> 0 < clientHeight w \<Longrightarrow>
   mountRef g \<Longrightarrow> 0 < clientWidth g \<Longrightarrow> 0 < clientHeight g \<Longrightarrow>
     aspect (handleResize w) = Some (real (clientWidth w) / real (clientHeight w)) \<and>
     rendererSize (handleResize w) = (clientWidth w, clientHeight w) \<and>
     handleResize (handleResize w) = handleResize w \<and>
     aspect (galaxy_handleResize g) = Some (real (clientWidth g) / real (clientHeight g)) \<and>
     rendererSize (galaxy_handleResize g) = (clientWidth g, clientHeight g) \<and>
     galaxy_handleResize (galaxy_handleResize g) = galaxy_handleResize g"
  by (simp add: handleResize_def galaxy_handleResize_def js_or_def js_div_def Let_def)

theorem C5_resize_exact_and_idempotent_witness:
  "aspect (handleResize (page 800 600 1024 768 2)) = Some (4 / 3) \<and>
   rendererSize (handleResize (page 800 600 1024 768 2)) = (800, 600) \<and>
   handleResize (handleResize (page 800 600 1024 768 2)) = handleResize (page 800 600 1024 768 2) \<and>
   aspect (galaxy_handleResize (galaxy_page 400 300 1024 768 1)) = Some (4 / 3) \<and>
   rendererSize (galaxy_handleResize (galaxy_page 400 300 1024 768 1)) = (400, 300) \<and>
   galaxy_handleResize (galaxy_handleResize (galaxy_page 400 300 1024 768 1))
     = galaxy_handleResize (galaxy_page 400 300 1024 768 1)"
  using C5_resize_exact_and_idempotent
    [where w = "page 800 600 1024 768 2" and g = "galaxy_page 400 300 1024 768 1"]
  by (simp add: page_def galaxy_page_def)

section \<open>Teardown order and the life of a mounted scene\<close>

lemma city_animate_fields:
  "mountRef (city_animate rnd now w) = mountRef w"
  "controlsRef (city_animate rnd now w) = controlsRef w"
  "children (city_animate rnd now w) = children w"
  "canvas (city_animate rnd now w) = canvas w"
  "nextNode (city_animate rnd now w) = nextNode w"
  "trace (city_animate rnd now w) = trace w"
  "rendererRef (city_animate rnd now w) = rendererRef w"
  "listeners (city_animate rnd now w) = listeners w"
  "clientWidth (city_animate rnd now w) = clientWidth w"
  "clientHeight (city_animate rnd now w) = clientHeight w"
  "draws (city_animate rnd now w) = draws w + 1"
  "rafCounter (city_animate rnd now w) = rafCounter w + 1"
  "rafPending (city_animate rnd now w) = rafPending w @ [rafCounter w + 1]"
  "animationIdRef (city_animate rnd now w) = Some (rafCounter w + 1)"
  by (simp_all add: city_animate_def requestAnimationFrame_def Let_def)

lemma city_build_fields:
  "mountRef (city_build rnd cfg w) = mountRef w"
  "controlsRef (city_build rnd cfg w) = controlsRef w"
  "children (city_build rnd cfg w) = children w"
  "canvas (city_build rnd cfg w) = canvas w"
  "nextNode (city_build rnd cfg w) = nextNode w"
  "trace (city_build rnd cfg w) = trace w"
  "rendererRef (city_build rnd cfg w) = rendererRef w"
  "listeners (city_build rnd cfg w) = listeners w"
  "clientWidth (city_build rnd cfg w) = clientWidth w"
  "clientHeight (city_build rnd cfg w) = clientHeight w"
  "draws (city_build rnd cfg w) = draws w"
  "rafCounter (city_build rnd cfg w) = rafCounter w"
  "rafPending (city_build rnd cfg w) = rafPending w"
  "animationIdRef (city_build rnd cfg w) = animationIdRef w"
  by (simp_all add: city_build_def Let_def)

lemma animate_nextNode: "nextNode (animate now w) = nextNode w"
  by (simp add: animate_def requestAnimationFrame_def Let_def split: option.split)

lemma step_bound: "bound w \<Longrightarrow> bound (step ev w)"
  by (cases ev)
    (auto simp add: bound_def step_def runFrame_one animate_fields animate_nextNode
      handleMouseDown_def handleMouseMove_def handleMouseUp_def handleResize_def Let_def
      split: option.splits)

lemma step_trace: "trace (step ev w) = trace w"
  using step_static[of ev w] by simp

lemma city_step_bound: "bound w \<Longrightarrow> bound (city_step rnd ev w)"
  by (cases ev)
    (auto simp add: bound_def city_step_def city_runFrame_def city_animate_fields
      city_handleResize_def Let_def split: option.splits)

lemma detach_single:
  "mountRef w \<Longrightarrow> children w = [CanvasNode (canvas w)] \<Longrightarrow>
   detachCanvases w = w\<lparr>children := [], trace := trace w @ [RemoveChild (CanvasNode (canvas w))]\<rparr>"
  by (simp add: detachCanvases_def removeChild_def Let_def)

lemma detach_unmounted: "\<not> mountRef w \<Longrightarrow> detachCanvases w = w"
  by (simp add: detachCanvases_def)

lemma cleanup_bound:
  assumes "bound w" "animationIdRef w = Some h"
  shows "trace (cleanup w) = trace w @
     [RemoveEventListener WindowT resize, CancelAnimationFrame h, ControlsDispose,
      RemoveEventListener (CanvasT (canvas w)) mousedown,
      RemoveEventListener DocumentT mousemove, RemoveEventListener DocumentT mouseup,
      RemoveChild (CanvasNode (canvas w)), RendererDispose,
      Dispose ''geometry'', Dispose ''material'', Dispose ''planeMaterial'',
      Dispose ''planeGeometry'']"
    and "mountRef (cleanup w)" and "children (cleanup w) = []"
    and "rendererRef (cleanup w) = None" and "rafPending (cleanup w) = []"
    and "nextNode (cleanup w) = nextNode w"
  using assms
  by (simp_all add: bound_def cleanup_def Let_def removeEventListener_def
      cancelAnimationFrame_def released_def detach_single)

lemma unmount_bound:
  assumes "bound w" "animationIdRef w = Some h"
  shows "trace (unmount w) = trace w @
     [RemoveEventListener WindowT resize, CancelAnimationFrame h, ControlsDispose,
      RemoveEventListener (CanvasT (canvas w)) mousedown,
      RemoveEventListener DocumentT mousemove, RemoveEventListener DocumentT mouseup,
      RendererDispose,
      Dispose ''geometry'', Dispose ''material'', Dispose ''planeMaterial'',
      Dispose ''planeGeometry'']"
    and "children (unmount w) = [CanvasNode (canvas w)]"
  using assms
  by (simp_all add: bound_def unmount_def cleanup_def Let_def removeEventListener_def
      cancelAnimationFrame_def released_def detach_unmounted)

lemma city_cleanup_bound:
  assumes "bound w" "animationIdRef w = Some h"
  shows "trace (city_cleanup w) = trace w @
     [RemoveEventListener WindowT resize, CancelAnimationFrame h, ControlsDispose,
      RemoveChild (CanvasNode (canvas w)), RendererDispose]"
    and "mountRef (city_cleanup w)" and "children (city_cleanup w) = []"
    and "rendererRef (city_cleanup w) = None" and "rafPending (city_cleanup w) = []"
    and "nextNode (city_cleanup w) = nextNode w"
  using assms
  by (simp_all add: bound_def city_cleanup_def Let_def removeEventListener_def
      cancelAnimationFrame_def released_def detach_single)

lemma city_unmount_bound:
  assumes "bound w" "animationIdRef w = Some h"
  shows "trace (city_unmount w) = trace w @
     [RemoveEventListener WindowT resize, CancelAnimationFrame h, ControlsDispose,
      RendererDispose]"
    and "children (city_unmount w) = [CanvasNode (canvas w)]"
  using assms
  by (simp_all add: bound_def city_unmount_def city_cleanup_def Let_def removeEventListener_def
      cancelAnimationFrame_def released_def detach_unmounted)

lemma mount_fresh:
  assumes "mountRef w" "children w = []" "rendererRef w = None" "rafPending w = []"
  shows "mountRef (mount cfg now w)" "controlsRef (mount cfg now w)"
    "canvas (mount cfg now w) = nextNode w"
    "children (mount cfg now w) = [CanvasNode (nextNode w)]"
    "rendererRef (mount cfg now w) = Some (nextNode w)"
    "nextNode (mount cfg now w) = nextNode w + 1"
    "trace (mount cfg now w) = trace w"
    "rafPending (mount cfg now w) = [rafCounter w + 1]"
    "animationIdRef (mount cfg now w) = Some (rafCounter w + 1)"
  using assms
  by (simp_all add: mount_def clearMount_def Let_def createRenderer_def appendChild_def
      addEventListener_def animate_fields animate_nextNode)

lemma city_mount_fresh:
  assumes "mountRef w" "children w = []" "rendererRef w = None" "rafPending w = []"
  shows "mountRef (city_mount rnd cfg now w)" "controlsRef (city_mount rnd cfg now w)"
    "canvas (city_mount rnd cfg now w) = nextNode w"
    "children (city_mount rnd cfg now w) = [CanvasNode (nextNode w)]"
    "rendererRef (city_mount rnd cfg now w) = Some (nextNode w)"
    "nextNode (city_mount rnd cfg now w) = nextNode w + 1"
    "trace (city_mount rnd cfg now w) = trace w"
    "rafPending (city_mount rnd cfg now w) = [rafCounter w + 1]"
    "animationIdRef (city_mount rnd cfg now w) = Some (rafCounter w + 1)"
  using assms
  by (simp_all add: city_mount_def clearMount_def Let_def createRenderer_def appendChild_def
      addEventListener_def city_animate_fields city_build_fields city_handleResize_def)

lemma mount_page_bound: "bound (mount cfg now (page cw ch iw ih dpr))"
proof -
  have p: "mountRef (page cw ch iw ih dpr)" "children (page cw ch iw ih dpr) = []"
    "rendererRef (page cw ch iw ih dpr) = None" "rafPending (page cw ch iw ih dpr) = []"
    by (simp_all add: page_def)
  have q: "nextNode (page cw ch iw ih dpr) = 0" "trace (page cw ch iw ih dpr) = []"
    by (simp_all add: page_def)
  show ?thesis unfolding bound_def by (simp add: mount_fresh[OF p] q)
qed

lemma mount_page_static:
  "mountRef (mount cfg now (page cw ch iw ih dpr)) \<and>
   controlsRef (mount cfg now (page cw ch iw ih dpr)) \<and>
   children (mount cfg now (page cw ch iw ih dpr)) = [CanvasNode 0] \<and>
   canvas (mount cfg now (page cw ch iw ih dpr)) = 0 \<and>
   trace (mount cfg now (page cw ch iw ih dpr)) = [] \<and>
   rendererRef (mount cfg now (page cw ch iw ih dpr)) = Some 0"
  by (simp add: mount_def page_def clearMount_def Let_def createRenderer_def appendChild_def
      addEventListener_def animate_fields)

lemma city_mount_page_bound: "bound (city_mount rnd cfg now (city_page cw ch iw ih dpr))"
proof -
  have p: "mountRef (city_page cw ch iw ih dpr)" "children (city_page cw ch iw ih dpr) = []"
    "rendererRef (city_page cw ch iw ih dpr) = None"
    "rafPending (city_page cw ch iw ih dpr) = []"
    by (simp_all add: city_page_def)
  have q: "nextNode (city_page cw ch iw ih dpr) = 0" "trace (city_page cw ch iw ih dpr) = []"
    by (simp_all add: city_page_def)
  show ?thesis unfolding bound_def by (simp add: city_mount_fresh[OF p] q)
qed

lemma rerun_bound: "bound w \<Longrightarrow> bound (rerun cfg now w)"
proof -
  assume b: "bound w"
  then obtain h where h: "animationIdRef w = Some h"
    by (auto simp add: bound_def split: option.splits)
  note c = cleanup_bound[OF b h]
  have n: "nextNode w = count_list (trace w) RendererDispose + 1"
    using b by (simp add: bound_def)
  show ?thesis
    unfolding bound_def rerun_def
    by (simp add: mount_fresh[OF c(2,3,4,5)] c(1,6) n)
qed

lemma city_rerun_bound: "bound w \<Longrightarrow> bound (city_rerun rnd cfg now w)"
proof -
  assume b: "bound w"
  then obtain h where h: "animationIdRef w = Some h"
    by (auto simp add: bound_def split: option.splits)
  note c = city_cleanup_bound[OF b h]
  have n: "nextNode w = count_list (trace w) RendererDispose + 1"
    using b by (simp add: bound_def)
  show ?thesis
    unfolding bound_def city_rerun_def
    by (simp add: city_mount_fresh[OF c(2,3,4,5)] c(1,6) n)
qed

lemma live_bound: "bound w \<Longrightarrow> bound (live acts w)"
proof (induction acts arbitrary: w)
  case Nil
  then show ?case by (simp add: live_def)
next
  case (Cons a acts)
  have "bound (life a w)" using Cons.prems by (cases a) (simp_all add: step_bound rerun_bound)
  from Cons.IH[OF this] show ?case by (simp add: live_def)
qed

lemma city_live_bound: "bound w \<Longrightarrow> bound (city_live rnd acts w)"
proof (induction acts arbitrary: w)
  case Nil
  then show ?case by (simp add: city_live_def)
next
  case (Cons a acts)
  have "bound (city_life rnd a w)"
    using Cons.prems by (cases a) (simp_all add: city_step_bound city_rerun_bound)
  from Cons.IH[OF this] show ?case by (simp add: city_live_def)
qed

text \<open>
  C1, as the code has it. At any moment in the life of a mounted cube demo (events and
  re-runs of the effect, in any order) its cleanup makes its release calls in this order:
  the resize listener is removed, the pending frame request is cancelled, the controls
  are disposed, the three mouse listeners are removed, the canvas is detached from the
  mount point, the renderer is disposed, and the cube's and the plane's geometry and
  material are disposed. That is the cleanup before a re-run of the effect, when the
  mount point is still referenced. On unmount the ref of the mount point is already
  cleared, and the same calls are made in the same order without the detaching of the
  canvas. The city demo's cleanup removes the resize listener, cancels the pending frame
  request, disposes the controls, detaches the canvas (not on unmount) and disposes the
  renderer, in this order.
\<close>

theorem C1_teardown_order:
  "(\<exists>h. animationIdRef (live acts (mount cfg now (page cw ch iw ih dpr))) = Some h \<and>
      trace (cleanup (live acts (mount cfg now (page cw ch iw ih dpr)))) =
        trace (live acts (mount cfg now (page cw ch iw ih dpr))) @
        [RemoveEventListener WindowT resize, CancelAnimationFrame h, ControlsDispose,
         RemoveEventListener (CanvasT (canvas (live acts (mount cfg now (page cw ch iw ih dpr)))))
           mousedown,
         RemoveEventListener DocumentT mousemove, RemoveEventListener DocumentT mouseup,
         RemoveChild (CanvasNode (canvas (live acts (mount cfg now (page cw ch iw ih dpr))))),
         RendererDispose,
         Dispose ''geometry'', Dispose ''material'', Dispose ''planeMaterial'',
         Dispose ''planeGeometry''] \<and>
      trace (unmount (live acts (mount cfg now (page cw ch iw ih dpr)))) =
        trace (live acts (mount cfg now (page cw ch iw ih dpr))) @
        [RemoveEventListener WindowT resize, CancelAnimationFrame h, ControlsDispose,
         RemoveEventListener (CanvasT (canvas (live acts (mount cfg now (page cw ch iw ih dpr)))))
           mousedown,
         RemoveEventListener DocumentT mousemove, RemoveEventListener DocumentT mouseup,
         RendererDispose,
         Dispose ''geometry'', Dispose ''material'', Dispose ''planeMaterial'',
         Dispose ''planeGeometry'']) \<and>
   (\<exists>h. animationIdRef (city_live rnd cacts (city_mount rnd ccfg now (city_page cw ch iw ih dpr)))
          = Some h \<and>
      trace (city_cleanup (city_live rnd cacts (city_mount rnd ccfg now (city_page cw ch iw ih dpr)))) =
        trace (city_live rnd cacts (city_mount rnd ccfg now (city_page cw ch iw ih dpr))) @
        [RemoveEventListener WindowT resize, CancelAnimationFrame h, ControlsDispose,
         RemoveChild
           (CanvasNode (canvas (city_live rnd cacts (city_mount rnd ccfg now (city_page cw ch iw ih dpr))))),
         RendererDispose] \<and>
      trace (city_unmount (city_live rnd cacts (city_mount rnd ccfg now (city_page cw ch iw ih dpr)))) =
        trace (city_live rnd cacts (city_mount rnd ccfg now (city_page cw ch iw ih dpr))) @
        [RemoveEventListener WindowT resize, CancelAnimationFrame h, ControlsDispose,
         RendererDispose])"
proof -
  let ?w = "live acts (mount cfg now (page cw ch iw ih dpr))"
  let ?c = "city_live rnd cacts (city_mount rnd ccfg now (city_page cw ch iw ih dpr))"
  have b: "bound ?w" by (rule live_bound[OF mount_page_bound])
  then obtain h where h: "animationIdRef ?w = Some h"
    by (auto simp add: bound_def split: option.splits)
  have d: "bound ?c" by (rule city_live_bound[OF city_mount_page_bound])
  then obtain k where k: "animationIdRef ?c = Some k"
    by (auto simp add: bound_def split: option.splits)
  show ?thesis
    using cleanup_bound(1)[OF b h] unmount_bound(1)[OF b h] h
      city_cleanup_bound(1)[OF d k] city_unmount_bound(1)[OF d k] k
    by simp
qed

text \<open>
  The order the specification requires puts the frame cancellation first, the resize
  listener third and the detaching of the canvas fourth. When a freshly mounted cube demo
  is unmounted, the resize listener goes first (the cancellation of frame request 1 is
  not followed by the listener's removal) and the canvas is never detached: it is still
  the mount point's child afterwards.
\<close>

theorem C1_unmount_order:
  "\<not> precedes (CancelAnimationFrame 1) (RemoveEventListener WindowT resize)
       (trace (unmount (mount defaultConfig 0 (page 800 600 1024 768 1)))) \<and>
   RemoveChild (CanvasNode 0) \<notin> set (trace (unmount (mount defaultConfig 0 (page 800 600 1024 768 1)))) \<and>
   children (unmount (mount defaultConfig 0 (page 800 600 1024 768 1))) = [CanvasNode 0]"
proof -
  let ?w = "mount defaultConfig 0 (page 800 600 1024 768 1)"
  have b: "bound ?w" by (rule mount_page_bound)
  have h: "animationIdRef ?w = Some 1" by (simp add: mount_page_live)
  have c: "canvas ?w = 0" "trace ?w = []" by (simp_all add: mount_page_static)
  show ?thesis
    using unmount_bound[OF b h] by (simp add: c)
qed



section \<open>The content builders and the random stream\<close>

lemma createBuilding_agree:
  "rnd k = rnd' k' \<Longrightarrow>
   fst (createBuilding rnd k w h d x z) = fst (createBuilding rnd' k' w h d x z) \<and>
   snd (createBuilding rnd k w h d x z) = k + 1 \<and> snd (createBuilding rnd' k' w h d x z) = k' + 1"
  by (simp add: createBuilding_def Let_def)

lemma zLoop_agree:
  "(\<And>j. rnd (k + j) = rnd' (k' + j)) \<Longrightarrow>
   \<exists>m. snd (zLoop rnd x z k scene) = k + m \<and> snd (zLoop rnd' x z k' scene) = k' + m \<and>
       fst (zLoop rnd' x z k' scene) = fst (zLoop rnd x z k scene)"
proof (induction rnd x z k scene arbitrary: k' rule: zLoop.induct)
  case (1 rnd x z k scene)
  show ?case
  proof (cases "z \<le> 60")
    case False
    then show ?thesis by (simp add: zLoop.simps[of _ x z])
  next
    case True
    show ?thesis
    proof (cases "\<bar>x\<bar> < 10 \<and> \<bar>z\<bar> < 10")
      case skip: True
      from "1.IH"(1)[OF True skip, of k'] "1.prems"
      show ?thesis using True skip by (simp add: zLoop.simps[of _ x z])
    next
      case build: False
      have r: "rnd k = rnd' k'" "rnd (k + 1) = rnd' (k' + 1)" "rnd (k + 2) = rnd' (k' + 2)"
        "rnd (k + 3) = rnd' (k' + 3)"
        using "1.prems"[of 0] "1.prems"[of 1] "1.prems"[of 2] "1.prems"[of 3] by simp_all
      let ?b = "createBuilding rnd (k + 3) (4 + rnd k * 6) (10 + rnd (k + 1) * 40)
                  (4 + rnd (k + 2) * 6) (real_of_int x) (real_of_int z)"
      let ?b' = "createBuilding rnd' (k' + 3) (4 + rnd' k' * 6) (10 + rnd' (k' + 1) * 40)
                  (4 + rnd' (k' + 2) * 6) (real_of_int x) (real_of_int z)"
      have b: "fst ?b' = fst ?b" "snd ?b = k + 4" "snd ?b' = k' + 4"
        using r by (simp_all add: createBuilding_def Let_def)
      have "rnd (snd ?b + j) = rnd' (k' + 4 + j)" for j
        using "1.prems"[of "4 + j"] b(2) by (simp add: add.assoc)
      from "1.IH"(2)[OF True build refl refl refl refl this]
      obtain m where m: "snd (zLoop rnd x (z + 20) (snd ?b) (scene @ [fst ?b])) = snd ?b + m"
        "snd (zLoop rnd' x (z + 20) (k' + 4) (scene @ [fst ?b])) = k' + 4 + m"
        "fst (zLoop rnd' x (z + 20) (k' + 4) (scene @ [fst ?b]))
           = fst (zLoop rnd x (z + 20) (snd ?b) (scene @ [fst ?b]))"
        by blast
      have nb: "(\<bar>x\<bar> < 10 \<and> \<bar>z\<bar> < 10) = False"
        using build by simp
      have u: "zLoop rnd x z k scene = zLoop rnd x (z + 20) (snd ?b) (scene @ [fst ?b])"
        by (subst zLoop.simps) (simp only: True nb if_True if_False Let_def)
      have u': "zLoop rnd' x z k' scene = zLoop rnd' x (z + 20) (snd ?b') (scene @ [fst ?b'])"
        by (subst zLoop.simps) (simp only: True nb if_True if_False Let_def)
      show ?thesis
        unfolding u u' using m b
        by (intro exI[of _ "4 + m"]) simp
    qed
  qed
qed

lemma xLoop_agree:
  "(\<And>j. rnd (k + j) = rnd' (k' + j)) \<Longrightarrow>
   \<exists>m. snd (xLoop rnd x k scene) = k + m \<and> snd (xLoop rnd' x k' scene) = k' + m \<and>
       fst (xLoop rnd' x k' scene) = fst (xLoop rnd x k scene)"
proof (induction rnd x k scene arbitrary: k' rule: xLoop.induct)
  case (1 rnd x k scene)
  show ?case
  proof (cases "x \<le> 60")
    case False
    then show ?thesis by (simp add: xLoop.simps[of _ x])
  next
    case True
    from zLoop_agree[of rnd k rnd' k' x "- 60" scene] "1.prems"
    obtain m where m: "snd (zLoop rnd x (- 60) k scene) = k + m"
      "snd (zLoop rnd' x (- 60) k' scene) = k' + m"
      "fst (zLoop rnd' x (- 60) k' scene) = fst (zLoop rnd x (- 60) k scene)"
      by blast
    have "rnd (snd (zLoop rnd x (- 60) k scene) + j) = rnd' (k' + m + j)" for j
      using "1.prems"[of "m + j"] m(1) by (simp add: add.assoc)
    from "1.IH"[OF True refl this]
    obtain n where n:
      "snd (xLoop rnd (x + 20) (snd (zLoop rnd x (- 60) k scene)) (fst (zLoop rnd x (- 60) k scene)))
         = snd (zLoop rnd x (- 60) k scene) + n"
      "snd (xLoop rnd' (x + 20) (k' + m) (fst (zLoop rnd x (- 60) k scene))) = k' + m + n"
      "fst (xLoop rnd' (x + 20) (k' + m) (fst (zLoop rnd x (- 60) k scene)))
         = fst (xLoop rnd (x + 20) (snd (zLoop rnd x (- 60) k scene)) (fst (zLoop rnd x (- 60) k scene)))"
      by blast
    show ?thesis
      using True m n
      by (intro exI[of _ "m + n"]) (simp add: xLoop.simps[of _ x] Let_def)
  qed
qed

lemma snd_createBuilding: "snd (createBuilding rnd k w h d x z) = k + 1"
  by (simp add: createBuilding_def Let_def)

lemma footprint_createBuilding: "footprint (fst (createBuilding rnd k w h d x z)) = (x, z)"
  by (simp add: createBuilding_def footprint_def Let_def)

lemma box_createBuilding:
  "mesh_geometry (hd (fst (createBuilding rnd k w h d x z))) = BoxGeometry w h d"
  by (simp add: createBuilding_def Let_def)

lemma cityGrid_draws: "snd (cityGrid rnd k) = k + 192"
  by (simp add: cityGrid_def xLoop.simps zLoop.simps Let_def snd_createBuilding)

lemma cityGrid_footprints:
  "map footprint (fst (cityGrid rnd k)) =
     [(- 60, - 60), (- 60, - 40), (- 60, - 20), (- 60, 0), (- 60, 20), (- 60, 40), (- 60, 60),
      (- 40, - 60), (- 40, - 40), (- 40, - 20), (- 40, 0), (- 40, 20), (- 40, 40), (- 40, 60),
      (- 20, - 60), (- 20, - 40), (- 20, - 20), (- 20, 0), (- 20, 20), (- 20, 40), (- 20, 60),
      (0, - 60), (0, - 40), (0, - 20), (0, 20), (0, 40), (0, 60),
      (20, - 60), (20, - 40), (20, - 20), (20, 0), (20, 20), (20, 40), (20, 60),
      (40, - 60), (40, - 40), (40, - 20), (40, 0), (40, 20), (40, 40), (40, 60),
      (60, - 60), (60, - 40), (60, - 20), (60, 0), (60, 20), (60, 40), (60, 60)]"
  by (simp add: cityGrid_def xLoop.simps zLoop.simps Let_def snd_createBuilding
      footprint_createBuilding)

lemma cityGrid_first:
  "mesh_geometry (hd (hd (fst (cityGrid rnd k)))) =
     BoxGeometry (4 + rnd k * 6) (10 + rnd (k + 1) * 40) (4 + rnd (k + 2) * 6)"
  by (simp add: cityGrid_def xLoop.simps zLoop.simps Let_def snd_createBuilding
      box_createBuilding)

lemma galaxyPoint_agree:
  assumes "\<And>j. rnd (k + j) = rnd' (k' + j)"
  shows "galaxyPoint rnd' ci co i k' bs = galaxyPoint rnd ci co i k bs"
proof -
  have "rnd k = rnd' k'" using assms[of 0] by simp
  then show ?thesis
    using assms[of 1] assms[of 2] assms[of 3] assms[of 4] assms[of 5] assms[of 6] assms[of 7]
      assms[of 8] assms[of 9] assms[of 10]
    by (simp add: galaxyPoint_def)
qed

lemma galaxyLoop_agree:
  "(\<And>j. rnd (k + j) = rnd' (k' + j)) \<Longrightarrow>
   fst (galaxyLoop rnd' ci co n i k' bs) = fst (galaxyLoop rnd ci co n i k bs)"
proof (induction rnd ci co n i k bs arbitrary: k' rule: galaxyLoop.induct)
  case (1 rnd ci co n i k bs)
  show ?case
  proof (cases "i < n")
    case False
    then show ?thesis by (simp add: galaxyLoop.simps[of _ ci co n i])
  next
    case True
    have p: "galaxyPoint rnd' ci co i k' bs = galaxyPoint rnd ci co i k bs"
      using "1.prems" by (rule galaxyPoint_agree)
    have "rnd (k + 11 + j) = rnd' (k' + 11 + j)" for j
      using "1.prems"[of "11 + j"] by (simp add: add.assoc)
    from "1.IH"[OF True this] p True
    show ?thesis by (simp add: galaxyLoop.simps[of _ ci co n i])
  qed
qed

text \<open>
  C2, as the code has it. The build reads \<^verbatim>\<open>Math.random()\<close>. Two runs of the city grid (and
  of the galaxy's point loop) whose random draws agree, from wherever each run starts
  reading, build the same objects; every run of the city grid makes 192 draws and 48
  buildings, standing on the same 48 grid cells whatever is drawn.
\<close>

theorem C2_build_determined_by_draws:
  "\<forall>j. rnd (k + j) = rnd' (k' + j) \<Longrightarrow>
     fst (cityGrid rnd' k') = fst (cityGrid rnd k) \<and>
     snd (cityGrid rnd k) = k + 192 \<and>
     length (fst (cityGrid rnd k)) = 48 \<and>
     map footprint (fst (cityGrid rnd k)) = map footprint (fst (cityGrid other m)) \<and>
     fst (galaxyLoop rnd' ci co n i k' bs) = fst (galaxyLoop rnd ci co n i k bs)"
proof -
  assume a: "\<forall>j. rnd (k + j) = rnd' (k' + j)"
  then have b: "\<And>j. rnd (k + j) = rnd' (k' + j)" by simp
  from xLoop_agree[of rnd k rnd' k' "- 60" "[]", OF b]
  have "fst (cityGrid rnd' k') = fst (cityGrid rnd k)" by (auto simp: cityGrid_def)
  moreover have "length (map footprint (fst (cityGrid rnd k))) = 48"
    by (simp only: cityGrid_footprints) simp
  then have "length (fst (cityGrid rnd k)) = 48"
    by (simp only: length_map)
  ultimately show ?thesis
    using galaxyLoop_agree[of rnd k rnd' k' ci co n i bs, OF b]
    by (simp add: cityGrid_draws cityGrid_footprints)
qed

theorem C2_build_determined_by_draws_witness:
  "fst (cityGrid (\<lambda>j. 1 / 2) 0) = fst (cityGrid (\<lambda>j. if j < 5 then 1 else 1 / 2) 5) \<and>
   snd (cityGrid (\<lambda>j. if j < 5 then 1 else 1 / 2) 5) = 197 \<and>
   length (fst (cityGrid (\<lambda>j. if j < 5 then 1 else 1 / 2) 5)) = 48"
  using C2_build_determined_by_draws[where rnd = "\<lambda>j. if j < 5 then 1 else 1 / 2" and k = 5 and rnd' = "\<lambda>j. 1 / 2" and k' = 0]
  by simp

text \<open>
  Two runs one after the other (the city grid reads nothing of the configuration, so
  any two runs have the same configuration): the stream gives 0
  for the first 192 draws and 1/2 afterwards, so the first building is a 4 by 10 by 4
  box in the first run and a 7 by 30 by 7 box in the second.
\<close>

theorem C2_second_run_differs:
  "fst (cityGrid twoPhase (snd (cityGrid twoPhase 0))) \<noteq> fst (cityGrid twoPhase 0)"
proof
  assume "fst (cityGrid twoPhase (snd (cityGrid twoPhase 0))) = fst (cityGrid twoPhase 0)"
  then have "mesh_geometry (hd (hd (fst (cityGrid twoPhase 192)))) =
             mesh_geometry (hd (hd (fst (cityGrid twoPhase 0))))"
    by (simp add: cityGrid_draws)
  then show False
    by (simp add: cityGrid_first twoPhase_def)
qed

section \<open>The particle tick\<close>

lemma tickLoop_length: "length (fst (tickLoop rnd vel i k pos)) = length pos"
proof (induction rnd vel i k pos rule: tickLoop.induct)
  case (1 rnd vel i k pos)
  show ?case
  proof (cases "i < length pos")
    case False
    then show ?thesis by (simp add: tickLoop.simps[of _ _ i])
  next
    case True
    then show ?thesis
      using "1.IH"(1)[OF True refl refl refl] "1.IH"(2)[OF True refl refl refl]
      by (subst tickLoop.simps) (simp add: Let_def)
  qed
qed

lemma tickLoop_prefix: "j < i \<Longrightarrow> fst (tickLoop rnd vel i k pos) ! j = pos ! j"
proof (induction rnd vel i k pos rule: tickLoop.induct)
  case (1 rnd vel i k pos)
  show ?case
  proof (cases "i < length pos")
    case False
    then show ?thesis by (simp add: tickLoop.simps[of _ _ i])
  next
    case True
    then show ?thesis
      using "1.IH"(1)[OF True refl refl refl] "1.IH"(2)[OF True refl refl refl] "1.prems"
      by (subst tickLoop.simps) (simp add: Let_def)
  qed
qed

lemma tickLoop_step:
  assumes "i < length pos"
  shows "tickLoop rnd vel i k pos =
     (let p1 = pos[i := f32 (f64 (pos ! i + vel ! i))];
          p2 = p1[i + 1 := f32 (f64 (p1 ! (i + 1) + vel ! (i + 1)))];
          p3 = p2[i + 2 := f32 (f64 (p2 ! (i + 2) + vel ! (i + 2)))]
      in if p3 ! (i + 1) < 0 \<or> \<bar>p3 ! i\<bar> > 100 \<or> \<bar>p3 ! (i + 2)\<bar> > 100
         then tickLoop rnd vel (i + 3) (k + 3)
                (p3[i := f32 (f64 (f64 (rnd k - 0.5) * 200)),
                    i + 1 := f32 (f64 (50 + f64 (rnd (k + 1) * 50))),
                    i + 2 := f32 (f64 (f64 (rnd (k + 2) - 0.5) * 200))])
         else tickLoop rnd vel (i + 3) k p3)"
  by (subst tickLoop.simps) (simp only: assms if_True)

lemma tickLoop_here:
  assumes len: "3 * p + 2 < length pos" and rnd: "\<forall>j. 0 \<le> rnd j \<and> rnd j < 1"
  shows "if leaves pos vel p then respawned (fst (tickLoop rnd vel (3 * p) k pos)) p
         else advanced pos vel (fst (tickLoop rnd vel (3 * p) k pos)) p"
proof -
  let ?i = "3 * p"
  define p1 where "p1 = pos[?i := f32 (f64 (pos ! ?i + vel ! ?i))]"
  define p2 where "p2 = p1[?i + 1 := f32 (f64 (p1 ! (?i + 1) + vel ! (?i + 1)))]"
  define p3 where "p3 = p2[?i + 2 := f32 (f64 (p2 ! (?i + 2) + vel ! (?i + 2)))]"
  define q where "q = p3[?i := f32 (f64 (f64 (rnd k - 0.5) * 200)),
                         ?i + 1 := f32 (f64 (50 + f64 (rnd (k + 1) * 50))),
                         ?i + 2 := f32 (f64 (f64 (rnd (k + 2) - 0.5) * 200))]"
  have p3: "p3 ! ?i = moved (pos ! ?i) (vel ! ?i) \<and>
    p3 ! (?i + 1) = moved (pos ! (?i + 1)) (vel ! (?i + 1)) \<and>
    p3 ! (?i + 2) = moved (pos ! (?i + 2)) (vel ! (?i + 2))"
    using len by (simp add: p3_def p2_def p1_def moved_def)
  have q: "q ! (?i + 1) = f32 (f64 (50 + f64 (rnd (k + 1) * 50)))"
    using len by (simp add: q_def p3_def p2_def p1_def)
  have cond: "(p3 ! (?i + 1) < 0 \<or> \<bar>p3 ! ?i\<bar> > 100 \<or> \<bar>p3 ! (?i + 2)\<bar> > 100) = leaves pos vel p"
    using p3 by (simp add: leaves_def)
  have "?i < length pos" using len by simp
  from tickLoop_step[OF this, of rnd vel k]
  have "tickLoop rnd vel ?i k pos =
      (if p3 ! (?i + 1) < 0 \<or> \<bar>p3 ! ?i\<bar> > 100 \<or> \<bar>p3 ! (?i + 2)\<bar> > 100
       then tickLoop rnd vel (?i + 3) (k + 3) q else tickLoop rnd vel (?i + 3) k p3)"
    unfolding q_def p3_def p2_def p1_def Let_def .
  then have step: "tickLoop rnd vel ?i k pos =
      (if leaves pos vel p then tickLoop rnd vel (?i + 3) (k + 3) q
       else tickLoop rnd vel (?i + 3) k p3)"
    by (simp only: cond)
  show ?thesis
  proof (cases "leaves pos vel p")
    case True
    have "fst (tickLoop rnd vel ?i k pos) ! (?i + j) = q ! (?i + j)" if "j < 3" for j
      using that by (simp add: step True tickLoop_prefix)
    from this[of 1] q
    have "fst (tickLoop rnd vel ?i k pos) ! (?i + 1) = f32 (f64 (50 + f64 (rnd (k + 1) * 50)))"
      by simp
    moreover have "0 \<le> rnd (k + 1) * 50"
      using rnd by simp
    then have "0 \<le> f64 (rnd (k + 1) * 50)"
      unfolding f64_def by (rule fround_nonneg)
    then have "50 \<le> f32 (f64 (50 + f64 (rnd (k + 1) * 50)))"
      by (intro f32_ge_50 f64_ge_50) simp
    ultimately show ?thesis using True by (simp add: respawned_def)
  next
    case False
    have "fst (tickLoop rnd vel ?i k pos) ! (?i + j) = p3 ! (?i + j)" if "j < 3" for j
      using that by (simp add: step False tickLoop_prefix)
    from this[of 0] this[of 1] this[of 2] p3
    show ?thesis using False by (simp add: advanced_def)
  qed
qed

lemma tickLoop_point:
  "i \<le> 3 * p \<Longrightarrow> 3 dvd i \<Longrightarrow> 3 * p + 2 < length pos \<Longrightarrow>
   \<forall>j. 0 \<le> rnd j \<and> rnd j < 1 \<Longrightarrow>
   (if leaves pos vel p then respawned (fst (tickLoop rnd vel i k pos)) p
    else advanced pos vel (fst (tickLoop rnd vel i k pos)) p)"
proof (induction rnd vel i k pos rule: tickLoop.induct)
  case (1 rnd vel i k pos)
  show ?case
  proof (cases "i = 3 * p")
    case True
    then show ?thesis using tickLoop_here[OF "1.prems"(3,4)] by simp
  next
    case False
    with "1.prems"(1,2) have far: "i + 3 \<le> 3 * p" by (auto simp: dvd_def)
    have dvd: "3 dvd i + 3" using "1.prems"(2) by simp
    have lt: "i < length pos" using far "1.prems"(3) by simp
    define p1 where "p1 = pos[i := f32 (f64 (pos ! i + vel ! i))]"
    define p2 where "p2 = p1[i + 1 := f32 (f64 (p1 ! (i + 1) + vel ! (i + 1)))]"
    define p3 where "p3 = p2[i + 2 := f32 (f64 (p2 ! (i + 2) + vel ! (i + 2)))]"
    define q where "q = p3[i := f32 (f64 (f64 (rnd k - 0.5) * 200)),
                           i + 1 := f32 (f64 (50 + f64 (rnd (k + 1) * 50))),
                           i + 2 := f32 (f64 (f64 (rnd (k + 2) - 0.5) * 200))]"
    have same3: "p3 ! (3 * p + j) = pos ! (3 * p + j)" for j
      using far by (simp add: p3_def p2_def p1_def)
    have sameq: "q ! (3 * p + j) = pos ! (3 * p + j)" for j
      using far by (simp add: q_def p3_def p2_def p1_def)
    have l3: "leaves p3 vel p = leaves pos vel p" "leaves q vel p = leaves pos vel p"
      using same3[of 0] same3[of 1] same3[of 2] sameq[of 0] sameq[of 1] sameq[of 2]
      by (simp_all add: leaves_def)
    have a3: "advanced p3 vel r p = advanced pos vel r p"
      "advanced q vel r p = advanced pos vel r p" for r
      using same3[of 0] same3[of 1] same3[of 2] sameq[of 0] sameq[of 1] sameq[of 2]
      by (simp_all add: advanced_def)
    have len3: "3 * p + 2 < length p3" "3 * p + 2 < length q"
      using "1.prems"(3) by (simp_all add: q_def p3_def p2_def p1_def)
    from tickLoop_step[OF lt, of rnd vel k]
    have step: "tickLoop rnd vel i k pos =
      (if p3 ! (i + 1) < 0 \<or> \<bar>p3 ! i\<bar> > 100 \<or> \<bar>p3 ! (i + 2)\<bar> > 100
       then tickLoop rnd vel (i + 3) (k + 3) q else tickLoop rnd vel (i + 3) k p3)"
      unfolding q_def p3_def p2_def p1_def Let_def .
    have ih1: "p3 ! (i + 1) < 0 \<or> \<bar>p3 ! i\<bar> > 100 \<or> \<bar>p3 ! (i + 2)\<bar> > 100 \<Longrightarrow>
       (if leaves q vel p then respawned (fst (tickLoop rnd vel (i + 3) (k + 3) q)) p
        else advanced q vel (fst (tickLoop rnd vel (i + 3) (k + 3) q)) p)"
      using far dvd len3(2) "1.prems"(4)
      unfolding q_def p3_def p2_def p1_def
      by (intro "1.IH"(1)[OF lt refl refl refl])
    have ih2: "\<not> (p3 ! (i + 1) < 0 \<or> \<bar>p3 ! i\<bar> > 100 \<or> \<bar>p3 ! (i + 2)\<bar> > 100) \<Longrightarrow>
       (if leaves p3 vel p then respawned (fst (tickLoop rnd vel (i + 3) k p3)) p
        else advanced p3 vel (fst (tickLoop rnd vel (i + 3) k p3)) p)"
      using far dvd len3(1) "1.prems"(4)
      unfolding p3_def p2_def p1_def
      by (intro "1.IH"(2)[OF lt refl refl refl])
    show ?thesis
    proof (cases "p3 ! (i + 1) < 0 \<or> \<bar>p3 ! i\<bar> > 100 \<or> \<bar>p3 ! (i + 2)\<bar> > 100")
      case True
      from ih1[OF True] show ?thesis by (simp only: step True if_True l3 a3)
    next
      case False
      from ih2[OF False] show ?thesis by (simp only: step False if_False l3 a3)
    qed
  qed
qed

lemma stored_64th: "f32 (f64 (1 / 64)) = 1 / 64"
proof -
  have a: "f64 (1 / 64) = 1 / 64"
    unfolding f64_def
    by (rule fround_exact_eq[where m = 1 and j = "- 6"]) (simp_all add: power_int_minus)
  have b: "f32 (1 / 64) = 1 / 64"
    unfolding f32_def
    by (rule fround_exact_eq[where m = 1 and j = "- 6"]) (simp_all add: power_int_minus)
  show ?thesis by (simp only: a b)
qed

text \<open>
  C8, as the code has it. In one tick of a particle system of \<open>n\<close> points, with random
  numbers in [0, 1), each coordinate becomes the sum of position and velocity, rounded to
  a double and stored as a single. A point that is then below 0 or more than 100 from the
  axis in x or z is respawned with a vertical coordinate of at least 50; every other
  point keeps the moved position, so with a downward velocity its vertical coordinate is
  the stored difference of its old value and the velocity's magnitude.
\<close>

theorem C8_particle_tick:
  "length (pvelocities sys) = length (ppositions sys) \<Longrightarrow> length (ppositions sys) = 3 * n \<Longrightarrow>
   p < n \<Longrightarrow> \<forall>j. 0 \<le> rnd j \<and> rnd j < 1 \<Longrightarrow>
   (if leaves (ppositions sys) (pvelocities sys) p
    then respawned (ppositions (fst (tickSystem rnd sys k))) p
    else advanced (ppositions sys) (pvelocities sys) (ppositions (fst (tickSystem rnd sys k))) p \<and>
         (pvelocities sys ! (3 * p + 1) < 0 \<longrightarrow>
            ppositions (fst (tickSystem rnd sys k)) ! (3 * p + 1) =
              f32 (f64 (ppositions sys ! (3 * p + 1) - \<bar>pvelocities sys ! (3 * p + 1)\<bar>))))"
proof -
  assume a: "length (pvelocities sys) = length (ppositions sys)" "length (ppositions sys) = 3 * n"
    "p < n" "\<forall>j. 0 \<le> rnd j \<and> rnd j < 1"
  have len: "3 * p + 2 < length (ppositions sys)" using a(2,3) by simp
  have r: "ppositions (fst (tickSystem rnd sys k)) =
             fst (tickLoop rnd (pvelocities sys) 0 k (ppositions sys))"
    by (simp add: tickSystem_def Let_def)
  from tickLoop_point[of 0 p "ppositions sys" rnd "pvelocities sys" k, OF _ _ len a(4)]
  show ?thesis
    by (auto simp add: r advanced_def moved_def split: if_splits)
qed

theorem C8_particle_tick_witness:
  "ppositions (fst (tickSystem halves
      \<lparr>ptype = rain, ppositions = [0, 10, 0, 5, 1, 5], pvelocities = [1 / 64, - 2, 0, 0, - 3, 0],
       pcolors = [0, 0, 0, 0, 0, 0]\<rparr> 7)) ! 1 = 8"
  using C8_particle_tick[where rnd = halves and p = 0 and n = 2 and k = 7 and
      sys = "\<lparr>ptype = rain, ppositions = [0, 10, 0, 5, 1, 5],
              pvelocities = [1 / 64, - 2, 0, 0, - 3, 0], pcolors = [0, 0, 0, 0, 0, 0]\<rparr>"]
  by (simp add: halves_def leaves_def advanced_def moved_def f64_zero f32_zero f64_numeral
      f32_numeral stored_64th)

lemma seedLoop_more:
  "i < n \<Longrightarrow> seedLoop rnd n i k sys = seedLoop rnd n (i + 1) (k + 6) (seedPoint rnd i k sys)"
  by (subst seedLoop.simps) simp

lemma seedLoop_done: "\<not> i < n \<Longrightarrow> seedLoop rnd n i k sys = (sys, k)"
  by (subst seedLoop.simps) simp

lemma stored_1: "f64 (4095 / 8192) = 4095 / 8192"
  unfolding f64_def
  by (rule fround_exact_eq[where m = 4095 and j = "- 13"]) (simp_all add: power_int_minus)

lemma stored_2: "f64 (102375 / 1024) = 102375 / 1024"
  unfolding f64_def
  by (rule fround_exact_eq[where m = 102375 and j = "- 10"]) (simp_all add: power_int_minus)

lemma stored_3: "f32 (102375 / 1024) = 102375 / 1024"
  unfolding f32_def
  by (rule fround_exact_eq[where m = 102375 and j = "- 10"]) (simp_all add: power_int_minus)

lemma stored_4: "f64 (25 / 2) = 25 / 2"
  unfolding f64_def
  by (rule fround_exact_eq[where m = 25 and j = "- 1"]) (simp_all add: power_int_minus)

lemma stored_5: "f32 (25 / 2) = 25 / 2"
  unfolding f32_def
  by (rule fround_exact_eq[where m = 25 and j = "- 1"]) (simp_all add: power_int_minus)

lemma stored_6: "f64 (1 / 4) = 1 / 4"
  unfolding f64_def
  by (rule fround_exact_eq[where m = 1 and j = "- 2"]) (simp_all add: power_int_minus)

lemma stored_7: "f64 (3602879701896397 / 144115188075855872) = 3602879701896397 / 144115188075855872"
  unfolding f64_def
  by (rule fround_exact_eq[where m = 3602879701896397 and j = "- 57"]) (simp_all add: power_int_minus)

lemma stored_8: "f64 (53687405773 / 536870912) = 53687405773 / 536870912"
  unfolding f64_def
  by (rule fround_exact_eq[where m = 53687405773 and j = "- 29"]) (simp_all add: power_int_minus)

lemma stored_9: "f64 (21 / 2) = 21 / 2"
  unfolding f64_def
  by (rule fround_exact_eq[where m = 21 and j = "- 1"]) (simp_all add: power_int_minus)

lemma stored_10: "f32 (21 / 2) = 21 / 2"
  unfolding f32_def
  by (rule fround_exact_eq[where m = 21 and j = "- 1"]) (simp_all add: power_int_minus)

lemma stored_vx: "f32 (3602879701896397 / 144115188075855872) = 13421773 / 536870912"
  unfolding f32_def
  by (subst fround_eval[where e = "- 6"]) (simp_all add: rne_def power_int_minus)

lemma stored_x: "f32 (53687405773 / 536870912) = 13107277 / 131072"
  unfolding f32_def
  by (subst fround_eval[where e = "6"]) (simp_all add: rne_def power_int_minus)

lemmas stored = stored_1 stored_2 stored_3 stored_4 stored_5 stored_6 stored_7 stored_8 stored_9
  stored_10 stored_vx stored_x f64_zero f32_zero f64_numeral f32_numeral f64_neg_numeral
  f32_neg_numeral f64_tenth

lemma seeded:
  "ppositions (fst (seedLoop gust 1 0 0 (newParticleSystem rain 1))) = [102375 / 1024, 25 / 2, 0]"
  "pvelocities (fst (seedLoop gust 1 0 0 (newParticleSystem rain 1))) =
     [13421773 / 536870912, - 2, 0]"
  "snd (seedLoop gust 1 0 0 (newParticleSystem rain 1)) = 6"
  by (simp_all add: seedLoop_more seedLoop_done seedPoint_def newParticleSystem_def gust_def Let_def
      numeral_3_eq_3 stored)

lemma tickLoop_done: "\<not> i < length pos \<Longrightarrow> tickLoop rnd vel i k pos = (pos, k)"
  by (subst tickLoop.simps) simp

lemma ticked:
  "fst (tickLoop gust [13421773 / 536870912, - 2, 0] 0 6 [102375 / 1024, 25 / 2, 0]) = [0, 75, 0]"
  by (simp add: tickLoop_step tickLoop_done gust_def Let_def stored)

text \<open>
  A rain point seeded at (99.9755859375, 12.5, 0) with velocity (0.0250000003725, -2, 0)
  does not fall below 0 in the next tick, yet its vertical coordinate does not decrease
  by 2: it drifted past x = 100 and is respawned at height 75.
\<close>

theorem C8_respawn_on_horizontal_exit:
  "\<not> moved (ppositions (fst (seedLoop gust 1 0 0 (newParticleSystem rain 1))) ! 1)
         (pvelocities (fst (seedLoop gust 1 0 0 (newParticleSystem rain 1))) ! 1) < 0 \<and>
   ppositions (fst (tickSystem gust (fst (seedLoop gust 1 0 0 (newParticleSystem rain 1)))
                      (snd (seedLoop gust 1 0 0 (newParticleSystem rain 1))))) ! 1
     \<noteq> ppositions (fst (seedLoop gust 1 0 0 (newParticleSystem rain 1))) ! 1
          - \<bar>pvelocities (fst (seedLoop gust 1 0 0 (newParticleSystem rain 1))) ! 1\<bar>"
proof -
  have m: "moved (25 / 2) (- 2) = 21 / 2"
    by (simp add: moved_def stored)
  have t: "ppositions (fst (tickSystem gust (fst (seedLoop gust 1 0 0 (newParticleSystem rain 1)))
                      (snd (seedLoop gust 1 0 0 (newParticleSystem rain 1))))) = [0, 75, 0]"
    by (simp only: tickSystem_def Let_def fst_conv seeded ticked) simp
  show ?thesis
    by (simp only: t, simp only: seeded, simp add: m)
qed

end
